theory Spec2Isabelle
  imports Main "HOL-Library.AList"
begin

section \<open>Values exchanged with the collaborators\<close>

text \<open>
  Everything the messaging core stores in Dropbox or hands to the broker is a Python value
  that went through \<^verbatim>\<open>json.dumps\<close> / \<^verbatim>\<open>json.loads\<close>. A dictionary keeps its insertion
  order, so an object is an association list; \<^verbatim>\<open>d[k] = v\<close> is \<open>AList.update\<close> (replace in
  place, or append) and \<^verbatim>\<open>d.get(k)\<close> is \<open>map_of\<close>. Numbers are integers: the counters
  and limits of this code are, and non-integer JSON numbers are outside the model.
\<close>

datatype json =
    JNull
  | JBool bool
  | JInt int
  | JStr string
  | JList "json list"
  | JObj "(string \<times> json) list"

type_synonym dict = "(string \<times> json) list"

text \<open>Python truthiness, as used by \<^verbatim>\<open>if not metadata\<close> and \<^verbatim>\<open>x or default\<close>.\<close>

fun truthy :: "json \<Rightarrow> bool" where
  "truthy JNull = False"
| "truthy (JBool b) = b"
| "truthy (JInt n) = (n \<noteq> 0)"
| "truthy (JStr s) = (s \<noteq> [])"
| "truthy (JList xs) = (xs \<noteq> [])"
| "truthy (JObj kvs) = (kvs \<noteq> [])"

text \<open>\<^verbatim>\<open>d.get(k, default)\<close>.\<close>

definition dict_get :: "dict \<Rightarrow> string \<Rightarrow> json \<Rightarrow> json" where
  "dict_get d k dflt = (case map_of d k of None \<Rightarrow> dflt | Some v \<Rightarrow> v)"

text \<open>
  The integer a value stands for in \<^verbatim>\<open>v < n\<close> and \<^verbatim>\<open>v + 1\<close>: \<^verbatim>\<open>bool\<close> is a subclass
  of \<^verbatim>\<open>int\<close>; for \<^verbatim>\<open>None\<close>, strings, lists and dictionaries both operations raise
  \<^verbatim>\<open>TypeError\<close>, which is \<open>None\<close> here.
\<close>

fun as_int :: "json \<Rightarrow> int option" where
  "as_int (JInt n) = Some n"
| "as_int (JBool b) = Some (if b then 1 else 0)"
| "as_int _ = None"

section \<open>The environment and the world\<close>

text \<open>
  What the code cannot decide is read from an environment, indexed by a logical time
  that advances at every read and every collaborator call: the identifiers \<^verbatim>\<open>uuid4()\<close>
  returns, the clock (\<^verbatim>\<open>datetime.utcnow()\<close>, \<^verbatim>\<open>date.today()\<close>), whether a Dropbox call
  or a channel call raises, and how Python prints a value that is not a string inside an
  f-string. \<open>channel\<close> is \<^verbatim>\<open>self.channel\<close> being set, \<open>daily_message_limit\<close> the setting.
\<close>

record env =
  uuid4 :: "nat \<Rightarrow> string"
  utcnow :: "nat \<Rightarrow> string"
  unix_time :: "nat \<Rightarrow> int"
  today :: "nat \<Rightarrow> string"
  dbx_ok :: "nat \<Rightarrow> bool"
  channel_ok :: "nat \<Rightarrow> bool"
  channel :: bool
  daily_message_limit :: int
  repr :: "json \<Rightarrow> string"

text \<open>\<^verbatim>\<open>pika.BasicProperties\<close> as \<^verbatim>\<open>publish_message\<close> fills it.\<close>

record properties =
  delivery_mode :: int
  priority :: int
  timestamp :: int
  message_id :: string
  content_type :: string

datatype exchange_type = direct | topic

text \<open>
  The calls made on the collaborators, in order, each with whether it succeeded:
  the Dropbox client (\<open>Download\<close>, \<open>Upload\<close>) and the channel. \<open>Publish\<close> records a call of
  \<^verbatim>\<open>publish_message\<close>; its properties are \<open>None\<close> when \<^verbatim>\<open>basic_publish\<close> is never
  reached: there is no channel, or \<^verbatim>\<open>message.get\<close> raises on a value that is not a
  dictionary (after the clock was read for the timestamp).
\<close>

datatype event =
    Download string bool
  | Upload string json bool
  | Publish string string json "properties option" bool
  | ExchangeDeclare string exchange_type bool bool
  | QueueDeclare string bool "dict option" bool
  | QueueBind string string string bool
  | Ack nat bool
  | Nack nat bool bool

record world =
  files :: "string \<Rightarrow> json option"
  tick :: nat
  trace :: "event list"

definition step :: "event \<Rightarrow> world \<Rightarrow> world" where
  "step e w = w\<lparr>tick := Suc (tick w), trace := trace w @ [e]\<rparr>"

definition read_clock :: "world \<Rightarrow> world" where
  "read_clock w = w\<lparr>tick := Suc (tick w)\<rparr>"

text \<open>A value inside an f-string: a string is itself, anything else is printed.\<close>

definition py_str :: "env \<Rightarrow> json \<Rightarrow> string" where
  "py_str e v = (case v of JStr s \<Rightarrow> s | _ \<Rightarrow> repr e v)"

section \<open>DropboxManager\<close>

text \<open>
  \<^verbatim>\<open>upload_json\<close> and \<^verbatim>\<open>download_json\<close> catch every exception and return
  \<^verbatim>\<open>False\<close> / \<^verbatim>\<open>None\<close>. A file that is missing or does not parse downloads as \<open>None\<close>.
\<close>

definition upload_json :: "env \<Rightarrow> world \<Rightarrow> string \<Rightarrow> json \<Rightarrow> bool \<times> world" where
  "upload_json e w path data =
     (if dbx_ok e (tick w)
      then (True, step (Upload path data True) (w\<lparr>files := (files w)(path \<mapsto> data)\<rparr>))
      else (False, step (Upload path data False) w))"

definition download_json :: "env \<Rightarrow> world \<Rightarrow> string \<Rightarrow> json option \<times> world" where
  "download_json e w path =
     (if dbx_ok e (tick w)
      then (files w path, step (Download path (files w path \<noteq> None)) w)
      else (None, step (Download path False) w))"

definition metadata_path :: "string \<Rightarrow> string" where
  "metadata_path client_id = ''/clients/'' @ client_id @ ''/metadata.json''"

definition archive_path :: "string \<Rightarrow> string \<Rightarrow> string" where
  "archive_path client_id mid = ''/clients/'' @ client_id @ ''/messages/'' @ mid @ ''.json''"

definition get_client_metadata :: "env \<Rightarrow> world \<Rightarrow> string \<Rightarrow> json option \<times> world" where
  "get_client_metadata e w client_id = download_json e w (metadata_path client_id)"

definition update_client_metadata :: "env \<Rightarrow> world \<Rightarrow> string \<Rightarrow> json \<Rightarrow> bool \<times> world" where
  "update_client_metadata e w client_id metadata =
     upload_json e w (metadata_path client_id) metadata"

section \<open>AMQPManager: publishing\<close>

definition publish_message ::
  "env \<Rightarrow> world \<Rightarrow> string \<Rightarrow> string \<Rightarrow> json \<Rightarrow> int \<Rightarrow> bool \<times> world" where
  "publish_message e w exchange routing_key message prio =
     (if \<not> channel e then (False, step (Publish exchange routing_key message None False) w)
      else
        let w1 = read_clock w in
        (case message of
           JObj d \<Rightarrow>
             let props = \<lparr>delivery_mode = 2, priority = prio, timestamp = unix_time e (tick w),
                          message_id = py_str e (dict_get d ''id'' (JStr '''')),
                          content_type = ''application/json''\<rparr>;
                 ok = channel_ok e (tick w1)
             in (ok, step (Publish exchange routing_key message (Some props) ok) w1)
         | _ \<Rightarrow> (False, step (Publish exchange routing_key message None False) w1)))"

definition publish_client_message :: "env \<Rightarrow> world \<Rightarrow> string \<Rightarrow> json \<Rightarrow> bool \<times> world" where
  "publish_client_message e w client_id message =
     publish_message e w ''insurance.direct'' client_id message 0"

definition publish_workflow_message :: "env \<Rightarrow> world \<Rightarrow> string \<Rightarrow> json \<Rightarrow> bool \<times> world" where
  "publish_workflow_message e w routing_key message =
     publish_message e w ''insurance.workflow'' routing_key message 0"

section \<open>MessagePublisher\<close>

datatype MessageType =
    DOCUMENT_REQUEST
  | CLAIM_UPDATE
  | PAYMENT_REMINDER
  | ENROLLMENT_NOTIFICATION
  | BENEFICIARY_UPDATE
  | SYSTEM_ALERT

fun type_value :: "MessageType \<Rightarrow> string" where
  "type_value DOCUMENT_REQUEST = ''document_request''"
| "type_value CLAIM_UPDATE = ''claim_update''"
| "type_value PAYMENT_REMINDER = ''payment_reminder''"
| "type_value ENROLLMENT_NOTIFICATION = ''enrollment_notification''"
| "type_value BENEFICIARY_UPDATE = ''beneficiary_update''"
| "type_value SYSTEM_ALERT = ''system_alert''"

record MessageCreate =
  mc_client_id :: string
  mc_message_type :: MessageType
  mc_content :: string
  mc_attachments :: "string list option"
  mc_metadata :: "dict option"

text \<open>The exceptions that reach a caller or a bucket of the bulk result.\<close>

datatype py_exception =
    MessageLimitExceededException string
  | KeyError string
  | ValueError json
  | ValidationError

text \<open>
  \<^verbatim>\<open>check_message_limit\<close>: every exception inside is caught and answers \<^verbatim>\<open>False\<close>:
  \<^verbatim>\<open>.get\<close> on a value that is not a dictionary, \<^verbatim>\<open><\<close> on a count that is not a number.
  The result of \<^verbatim>\<open>update_client_metadata\<close> is not looked at.
\<close>

definition check_message_limit :: "env \<Rightarrow> world \<Rightarrow> string \<Rightarrow> bool \<times> world" where
  "check_message_limit e w client_id =
     (case get_client_metadata e w client_id of (metadata, w1) \<Rightarrow>
        (case metadata of
           None \<Rightarrow> (False, w1)
         | Some m \<Rightarrow>
             if \<not> truthy m then (False, w1)
             else
               let day = today e (tick w1); w2 = read_clock w1 in
               (case m of
                  JObj d \<Rightarrow>
                    (case (if map_of d ''last_reset'' \<noteq> Some (JStr day)
                           then
                             let d' = AList.update ''last_reset'' (JStr day)
                                        (AList.update ''message_count_today'' (JInt 0) d)
                             in (d', snd (update_client_metadata e w2 client_id (JObj d')))
                           else (d, w2)) of
                       (d2, w3) \<Rightarrow>
                         (case as_int (dict_get d2 ''message_count_today'' (JInt 0)) of
                            None \<Rightarrow> (False, w3)
                          | Some current_count \<Rightarrow> (current_count < daily_message_limit e, w3)))
                | _ \<Rightarrow> (False, w2))))"

definition increment_message_counter :: "env \<Rightarrow> world \<Rightarrow> string \<Rightarrow> bool \<times> world" where
  "increment_message_counter e w client_id =
     (case get_client_metadata e w client_id of (metadata, w1) \<Rightarrow>
        (case metadata of
           None \<Rightarrow> (False, w1)
         | Some m \<Rightarrow>
             if \<not> truthy m then (False, w1)
             else
               (case m of
                  JObj d \<Rightarrow>
                    (case as_int (dict_get d ''message_count_today'' (JInt 0)) of
                       None \<Rightarrow> (False, w1)
                     | Some n \<Rightarrow>
                         let d1 = AList.update ''message_count_today'' (JInt (n + 1)) d;
                             d2 = AList.update ''last_message_sent'' (JStr (utcnow e (tick w1))) d1
                         in update_client_metadata e (read_clock w1) client_id (JObj d2))
                | _ \<Rightarrow> (False, w1))))"

definition client_envelope :: "string \<Rightarrow> string \<Rightarrow> string \<Rightarrow> MessageCreate \<Rightarrow> json" where
  "client_envelope mid ts client_id message_data =
     JObj [(''id'', JStr mid),
           (''type'', JStr (type_value (mc_message_type message_data))),
           (''content'', JStr (mc_content message_data)),
           (''timestamp'', JStr ts),
           (''client_id'', JStr client_id),
           (''attachments'', JList (map JStr (case mc_attachments message_data of
                                               None \<Rightarrow> [] | Some xs \<Rightarrow> xs))),
           (''metadata'', JObj (case mc_metadata message_data of None \<Rightarrow> [] | Some d \<Rightarrow> d))]"

definition sent_receipt :: "string \<Rightarrow> string \<Rightarrow> string \<Rightarrow> string \<Rightarrow> json" where
  "sent_receipt mid key who ts =
     JObj [(''message_id'', JStr mid), (key, JStr who), (''status'', JStr ''sent''),
           (''timestamp'', JStr ts)]"

text \<open>
  \<^verbatim>\<open>send_client_message\<close> returns a receipt, \<^verbatim>\<open>None\<close>, or raises
  \<^verbatim>\<open>MessageLimitExceededException\<close> (\<open>Inl\<close>), the one exception it lets through.
\<close>

definition send_client_message ::
  "env \<Rightarrow> world \<Rightarrow> string \<Rightarrow> MessageCreate \<Rightarrow> (py_exception + json option) \<times> world" where
  "send_client_message e w client_id message_data =
     (case check_message_limit e w client_id of (allowed, w1) \<Rightarrow>
        if \<not> allowed
        then (Inl (MessageLimitExceededException
                    (''Daily limit exceeded for client '' @ client_id)), w1)
        else
          let mid = uuid4 e (tick w1); w2 = read_clock w1;
              ts = utcnow e (tick w2); w3 = read_clock w2;
              message = client_envelope mid ts client_id message_data
          in (case upload_json e w3 (archive_path client_id mid) message of (archived, w4) \<Rightarrow>
                if \<not> archived then (Inr None, w4)
                else
                  (case publish_client_message e w4 client_id message of (published, w5) \<Rightarrow>
                     if \<not> published then (Inr None, w5)
                     else
                       (case increment_message_counter e w5 client_id of (_, w6) \<Rightarrow>
                          (Inr (Some (sent_receipt mid ''client_id'' client_id ts)), w6)))))"

definition workflow_archive_path :: "string \<Rightarrow> string" where
  "workflow_archive_path mid = ''/workflow/messages/'' @ mid @ ''.json''"

definition send_workflow_message ::
  "env \<Rightarrow> world \<Rightarrow> string \<Rightarrow> string \<Rightarrow> string \<Rightarrow> dict option \<Rightarrow> json option \<times> world" where
  "send_workflow_message e w routing_key message_type content metadata =
     (let mid = uuid4 e (tick w); w1 = read_clock w;
          ts = utcnow e (tick w1); w2 = read_clock w1;
          message = JObj [(''id'', JStr mid), (''type'', JStr message_type),
                          (''content'', JStr content), (''timestamp'', JStr ts),
                          (''routing_key'', JStr routing_key),
                          (''metadata'', JObj (case metadata of None \<Rightarrow> [] | Some d \<Rightarrow> d))]
      in (case upload_json e w2 (workflow_archive_path mid) message of (archived, w3) \<Rightarrow>
            if \<not> archived then (None, w3)
            else
              (case publish_workflow_message e w3 routing_key message of (published, w4) \<Rightarrow>
                 if \<not> published then (None, w4)
                 else (Some (sent_receipt mid ''routing_key'' routing_key ts), w4))))"

text \<open>
  \<^verbatim>\<open>send_notification\<close>: the result of the archive upload is dropped, and the priority
  goes into the envelope only (\<^verbatim>\<open>publish_client_message\<close> publishes with priority 0).
\<close>

definition send_notification ::
  "env \<Rightarrow> world \<Rightarrow> string \<Rightarrow> string \<Rightarrow> string \<Rightarrow> int \<Rightarrow> json option \<times> world" where
  "send_notification e w client_id notification_type content prio =
     (let mid = uuid4 e (tick w); w1 = read_clock w;
          ts = utcnow e (tick w1); w2 = read_clock w1;
          message = JObj [(''id'', JStr mid), (''type'', JStr ''system_alert''),
                          (''content'', JStr content), (''timestamp'', JStr ts),
                          (''client_id'', JStr client_id),
                          (''notification_type'', JStr notification_type),
                          (''priority'', JInt prio), (''metadata'', JObj [])]
      in (case upload_json e w2 (archive_path client_id mid) message of (_, w3) \<Rightarrow>
            (case publish_client_message e w3 client_id message of (published, w4) \<Rightarrow>
               if \<not> published then (None, w4)
               else (Some (sent_receipt mid ''client_id'' client_id ts), w4))))"

text \<open>
  \<^verbatim>\<open>resend_failed_message\<close>: the right-hand side \<^verbatim>\<open>datetime.utcnow()\<close> is evaluated
  before the item assignment raises on a value that is not a dictionary; \<^verbatim>\<open>+ 1\<close> raises
  on a \<^verbatim>\<open>retry_count\<close> that is not a number. Both are caught and answer \<^verbatim>\<open>False\<close>.
\<close>

definition resend_failed_message :: "env \<Rightarrow> world \<Rightarrow> string \<Rightarrow> string \<Rightarrow> bool \<times> world" where
  "resend_failed_message e w mid client_id =
     (case download_json e w (archive_path client_id mid) of (message, w1) \<Rightarrow>
        (case message of
           None \<Rightarrow> (False, w1)
         | Some m \<Rightarrow>
             if \<not> truthy m then (False, w1)
             else
               let ts = utcnow e (tick w1); w2 = read_clock w1 in
               (case m of
                  JObj d \<Rightarrow>
                    let d1 = AList.update ''timestamp'' (JStr ts) d in
                    (case as_int (dict_get d1 ''retry_count'' (JInt 0)) of
                       None \<Rightarrow> (False, w2)
                     | Some n \<Rightarrow>
                         let d2 = AList.update ''retry_count'' (JInt (n + 1)) d1 in
                         (case upload_json e w2 (archive_path client_id mid) (JObj d2) of
                            (_, w3) \<Rightarrow> publish_client_message e w3 client_id (JObj d2)))
                | _ \<Rightarrow> (False, w2))))"

text \<open>
  \<^verbatim>\<open>send_bulk_messages\<close>. An entry of the \<^verbatim>\<open>failed\<close> and \<^verbatim>\<open>limit_exceeded\<close> buckets is
  the pair of its \<^verbatim>\<open>client_id\<close> and its \<^verbatim>\<open>error\<close>; the error text of a caught exception
  is kept as the exception.
\<close>

datatype bulk_error =
    Daily_limit_exceeded
  | Failed_to_send_message
  | Raised py_exception

record bulk_results =
  successful :: "json list"
  failed :: "(json \<times> bulk_error) list"
  limit_exceeded :: "(json \<times> bulk_error) list"

text \<open>\<^verbatim>\<open>MessageType(value)\<close>: the member with that value, or \<^verbatim>\<open>ValueError\<close>.\<close>

definition MessageType_of :: "json \<Rightarrow> MessageType option" where
  "MessageType_of v =
     (case v of
        JStr s \<Rightarrow>
          (if s = ''document_request'' then Some DOCUMENT_REQUEST
           else if s = ''claim_update'' then Some CLAIM_UPDATE
           else if s = ''payment_reminder'' then Some PAYMENT_REMINDER
           else if s = ''enrollment_notification'' then Some ENROLLMENT_NOTIFICATION
           else if s = ''beneficiary_update'' then Some BENEFICIARY_UPDATE
           else if s = ''system_alert'' then Some SYSTEM_ALERT
           else None)
      | _ \<Rightarrow> None)"

fun str_list :: "json list \<Rightarrow> string list option" where
  "str_list [] = Some []"
| "str_list (JStr s # xs) = map_option ((#) s) (str_list xs)"
| "str_list (_ # xs) = None"

text \<open>
  The constructor \<^verbatim>\<open>MessageCreate(...)\<close> with the constraints of the model class:
  \<^verbatim>\<open>client_id\<close> a string of 3 to 50 characters, \<^verbatim>\<open>content\<close> a string of at least one,
  \<^verbatim>\<open>attachments\<close> a list of strings or \<^verbatim>\<open>None\<close>, \<^verbatim>\<open>metadata\<close> a dictionary or \<^verbatim>\<open>None\<close>.
  Values of another type are refused (no coercion); \<open>None\<close> is \<^verbatim>\<open>ValidationError\<close>.
\<close>

definition new_MessageCreate ::
  "json \<Rightarrow> MessageType \<Rightarrow> json \<Rightarrow> json \<Rightarrow> json \<Rightarrow> MessageCreate option" where
  "new_MessageCreate client_id mt content attachments metadata =
     (case (client_id, content) of
        (JStr c, JStr t) \<Rightarrow>
          if 3 \<le> length c \<and> length c \<le> 50 \<and> 1 \<le> length t
          then
            (case (case attachments of
                     JNull \<Rightarrow> Some None
                   | JList xs \<Rightarrow> map_option Some (str_list xs)
                   | _ \<Rightarrow> None) of
               None \<Rightarrow> None
             | Some att \<Rightarrow>
                 (case (case metadata of
                          JNull \<Rightarrow> Some None
                        | JObj d \<Rightarrow> Some (Some d)
                        | _ \<Rightarrow> None) of
                    None \<Rightarrow> None
                  | Some md \<Rightarrow>
                      Some \<lparr>mc_client_id = c, mc_message_type = mt, mc_content = t,
                            mc_attachments = att, mc_metadata = md\<rparr>))
          else None
      | _ \<Rightarrow> None)"

definition add_failed :: "json \<Rightarrow> bulk_error \<Rightarrow> bulk_results \<Rightarrow> bulk_results" where
  "add_failed client_id err results = results\<lparr>failed := failed results @ [(client_id, err)]\<rparr>"

text \<open>One turn of the loop: exactly one bucket receives exactly one entry.\<close>

definition bulk_item ::
  "env \<Rightarrow> world \<Rightarrow> bulk_results \<Rightarrow> dict \<Rightarrow> bulk_results \<times> world" where
  "bulk_item e w results message_data =
     (case map_of message_data ''client_id'' of
        None \<Rightarrow> (add_failed (JStr ''unknown'') (Raised (KeyError ''client_id'')) results, w)
      | Some client_id \<Rightarrow>
          (case check_message_limit e w (py_str e client_id) of (allowed, w1) \<Rightarrow>
             if \<not> allowed
             then (results\<lparr>limit_exceeded :=
                            limit_exceeded results @ [(client_id, Daily_limit_exceeded)]\<rparr>, w1)
             else
               (case map_of message_data ''type'' of
                  None \<Rightarrow> (add_failed client_id (Raised (KeyError ''type'')) results, w1)
                | Some t \<Rightarrow>
                    (case MessageType_of t of
                       None \<Rightarrow> (add_failed client_id (Raised (ValueError t)) results, w1)
                     | Some mt \<Rightarrow>
                         (case map_of message_data ''content'' of
                            None \<Rightarrow>
                              (add_failed client_id (Raised (KeyError ''content'')) results, w1)
                          | Some content \<Rightarrow>
                              (case new_MessageCreate client_id mt content
                                      (dict_get message_data ''attachments'' (JList []))
                                      (dict_get message_data ''metadata'' (JObj [])) of
                                 None \<Rightarrow>
                                   (add_failed client_id (Raised ValidationError) results, w1)
                               | Some message \<Rightarrow>
                                   (case send_client_message e w1 (mc_client_id message) message of
                                      (Inl exn, w2) \<Rightarrow>
                                        (add_failed client_id (Raised exn) results, w2)
                                    | (Inr None, w2) \<Rightarrow>
                                        (add_failed client_id Failed_to_send_message results, w2)
                                    | (Inr (Some result), w2) \<Rightarrow>
                                        if truthy result
                                        then (results\<lparr>successful :=
                                                        successful results @ [result]\<rparr>, w2)
                                        else (add_failed client_id Failed_to_send_message results,
                                              w2))))))))"

fun bulk_loop :: "env \<Rightarrow> world \<Rightarrow> bulk_results \<Rightarrow> dict list \<Rightarrow> bulk_results \<times> world" where
  "bulk_loop e w results [] = (results, w)"
| "bulk_loop e w results (message_data # rest) =
     (case bulk_item e w results message_data of (results', w') \<Rightarrow> bulk_loop e w' results' rest)"

definition send_bulk_messages :: "env \<Rightarrow> world \<Rightarrow> dict list \<Rightarrow> bulk_results \<times> world" where
  "send_bulk_messages e w messages =
     bulk_loop e w \<lparr>successful = [], failed = [], limit_exceeded = []\<rparr> messages"

section \<open>AMQPManager: topology\<close>

text \<open>
  A channel call that raises ends the method: \<^verbatim>\<open>setup_infrastructure\<close> re-raises
  (\<open>False\<close>: it did not return), \<^verbatim>\<open>create_client_queue\<close> returns \<^verbatim>\<open>False\<close>.
  \<open>calls\<close> issues the channel calls in order and stops after the first that fails.
\<close>

datatype channel_call =
    exchange_declare string exchange_type bool
  | queue_declare string bool "dict option"
  | queue_bind string string string

fun call_event :: "channel_call \<Rightarrow> bool \<Rightarrow> event" where
  "call_event (exchange_declare name kind durable) ok = ExchangeDeclare name kind durable ok"
| "call_event (queue_declare name durable arguments) ok = QueueDeclare name durable arguments ok"
| "call_event (queue_bind exchange queue routing_key) ok = QueueBind exchange queue routing_key ok"

fun calls :: "env \<Rightarrow> world \<Rightarrow> channel_call list \<Rightarrow> bool \<times> world" where
  "calls e w [] = (True, w)"
| "calls e w (c # cs) =
     (if channel_ok e (tick w) then calls e (step (call_event c True) w) cs
      else (False, step (call_event c False) w))"

definition infrastructure :: "channel_call list" where
  "infrastructure =
     [exchange_declare ''insurance.direct'' direct True,
      exchange_declare ''insurance.workflow'' topic True,
      exchange_declare ''insurance.dlx'' direct True]"

definition setup_infrastructure :: "env \<Rightarrow> world \<Rightarrow> bool \<times> world" where
  "setup_infrastructure e w = (if \<not> channel e then (False, w) else calls e w infrastructure)"

definition queue_arguments :: "string \<Rightarrow> int \<Rightarrow> dict" where
  "queue_arguments client_id limit =
     [(''x-message-ttl'', JInt 86400000),
      (''x-max-length'', JInt limit),
      (''x-overflow'', JStr ''reject-publish''),
      (''x-dead-letter-exchange'', JStr ''insurance.dlx''),
      (''x-dead-letter-routing-key'', JStr (''failed.'' @ client_id))]"

definition client_queue_calls :: "string \<Rightarrow> int \<Rightarrow> channel_call list" where
  "client_queue_calls client_id limit =
     [queue_declare (''client.'' @ client_id) True (Some (queue_arguments client_id limit)),
      queue_bind ''insurance.direct'' (''client.'' @ client_id) client_id,
      queue_declare (''failed.'' @ client_id) True None,
      queue_bind ''insurance.dlx'' (''failed.'' @ client_id) (''failed.'' @ client_id)]"

text \<open>\<^verbatim>\<open>limit = message_limit or self.daily_message_limit\<close>: \<^verbatim>\<open>None\<close> and \<^verbatim>\<open>0\<close> are falsy.\<close>

definition create_client_queue :: "env \<Rightarrow> world \<Rightarrow> string \<Rightarrow> int option \<Rightarrow> bool \<times> world" where
  "create_client_queue e w client_id message_limit =
     (if \<not> channel e then (False, w)
      else
        let limit = (case message_limit of
                       None \<Rightarrow> daily_message_limit e
                     | Some l \<Rightarrow> if l \<noteq> 0 then l else daily_message_limit e)
        in calls e w (client_queue_calls client_id limit))"

section \<open>MessageConsumer\<close>

text \<open>
  The delivered bytes, by what \<^verbatim>\<open>json.loads(body.decode('utf-8'))\<close> does with them:
  \<^verbatim>\<open>decode\<close> raises \<^verbatim>\<open>UnicodeDecodeError\<close>, \<^verbatim>\<open>loads\<close> raises \<^verbatim>\<open>JSONDecodeError\<close>,
  or a value comes back. Both exceptions are \<^verbatim>\<open>ValueError\<close>s and neither is a subclass
  of the other.
\<close>

datatype body =
    Not_utf8
  | Not_json
  | Json json

text \<open>
  \<^verbatim>\<open>basic_ack\<close> and \<^verbatim>\<open>basic_nack\<close> on the delivering channel. The boolean is whether
  the call returned.
\<close>

definition basic_ack :: "env \<Rightarrow> world \<Rightarrow> nat \<Rightarrow> bool \<times> world" where
  "basic_ack e w delivery_tag =
     (let ok = channel_ok e (tick w) in (ok, step (Ack delivery_tag ok) w))"

definition basic_nack :: "env \<Rightarrow> world \<Rightarrow> nat \<Rightarrow> bool \<Rightarrow> bool \<times> world" where
  "basic_nack e w delivery_tag requeue =
     (let ok = channel_ok e (tick w) in (ok, step (Nack delivery_tag requeue ok) w))"

text \<open>
  The six handlers of the per-client queues have one body, up to the name of the action
  and, for \<^verbatim>\<open>system_alert\<close>, one more field. A missing key raises \<^verbatim>\<open>KeyError\<close> before
  the clock is read; the handler catches it, logs, and returns. The result of
  \<^verbatim>\<open>upload_json\<close> is dropped.
\<close>

definition client_handler :: "env \<Rightarrow> world \<Rightarrow> string \<Rightarrow> bool \<Rightarrow> dict \<Rightarrow> world" where
  "client_handler e w kind alert message =
     (case (map_of message ''client_id'', map_of message ''content'', map_of message ''id'') of
        (Some client_id, Some content, Some mid) \<Rightarrow>
          let audit_log =
                [(''action'', JStr (kind @ ''_processed'')),
                 (''client_id'', client_id),
                 (''message_id'', mid)]
                @ (if alert
                   then [(''notification_type'',
                          dict_get message ''notification_type'' (JStr ''general''))]
                   else [])
                @ [(''timestamp'', JStr (utcnow e (tick w))),
                   (''content'', content)]
          in snd (upload_json e (read_clock w)
                    (''/clients/'' @ py_str e client_id @ ''/audit/'' @ kind @ ''_''
                       @ py_str e mid @ ''.json'')
                    (JObj audit_log))
      | _ \<Rightarrow> w)"

definition handle_document_request :: "env \<Rightarrow> world \<Rightarrow> dict \<Rightarrow> world" where
  "handle_document_request e w message = client_handler e w ''document_request'' False message"

definition handle_claim_update :: "env \<Rightarrow> world \<Rightarrow> dict \<Rightarrow> world" where
  "handle_claim_update e w message = client_handler e w ''claim_update'' False message"

definition handle_payment_reminder :: "env \<Rightarrow> world \<Rightarrow> dict \<Rightarrow> world" where
  "handle_payment_reminder e w message = client_handler e w ''payment_reminder'' False message"

definition handle_enrollment_notification :: "env \<Rightarrow> world \<Rightarrow> dict \<Rightarrow> world" where
  "handle_enrollment_notification e w message =
     client_handler e w ''enrollment_notification'' False message"

definition handle_beneficiary_update :: "env \<Rightarrow> world \<Rightarrow> dict \<Rightarrow> world" where
  "handle_beneficiary_update e w message =
     client_handler e w ''beneficiary_update'' False message"

definition handle_system_alert :: "env \<Rightarrow> world \<Rightarrow> dict \<Rightarrow> world" where
  "handle_system_alert e w message = client_handler e w ''system_alert'' True message"

definition dispatch :: "env \<Rightarrow> world \<Rightarrow> json \<Rightarrow> dict \<Rightarrow> world" where
  "dispatch e w message_type message =
     (if message_type = JStr ''document_request'' then handle_document_request e w message
      else if message_type = JStr ''claim_update'' then handle_claim_update e w message
      else if message_type = JStr ''payment_reminder'' then handle_payment_reminder e w message
      else if message_type = JStr ''enrollment_notification''
        then handle_enrollment_notification e w message
      else if message_type = JStr ''beneficiary_update''
        then handle_beneficiary_update e w message
      else if message_type = JStr ''system_alert'' then handle_system_alert e w message
      else w)"

definition delivery_path :: "env \<Rightarrow> json \<Rightarrow> json \<Rightarrow> string" where
  "delivery_path e client_id mid =
     ''/clients/'' @ py_str e client_id @ ''/audit/delivery-'' @ py_str e mid @ ''.json''"

text \<open>
  \<^verbatim>\<open>process_message\<close>. \<^verbatim>\<open>message.get\<close> on a decoded value that is not a dictionary
  raises \<^verbatim>\<open>AttributeError\<close>; that, \<^verbatim>\<open>UnicodeDecodeError\<close> and a \<^verbatim>\<open>basic_ack\<close> that raises
  all reach \<^verbatim>\<open>except Exception\<close>. An exception of \<^verbatim>\<open>basic_nack\<close> leaves the method.
\<close>

definition process_message :: "env \<Rightarrow> world \<Rightarrow> nat \<Rightarrow> body \<Rightarrow> bool \<times> world" where
  "process_message e w delivery_tag b =
     (case b of
        Not_json \<Rightarrow> basic_nack e w delivery_tag False
      | Not_utf8 \<Rightarrow> basic_nack e w delivery_tag True
      | Json (JObj message) \<Rightarrow>
          let client_id = dict_get message ''client_id'' JNull;
              mid = dict_get message ''id'' JNull;
              message_type = dict_get message ''type'' JNull;
              w1 = dispatch e w message_type message;
              confirmation =
                JObj [(''message_id'', mid), (''client_id'', client_id),
                      (''processed'', JStr (utcnow e (tick w1))),
                      (''status'', JStr ''delivered''),
                      (''message_type'', message_type)]
          in (case upload_json e (read_clock w1) (delivery_path e client_id mid) confirmation of
                (_, w2) \<Rightarrow>
                  (case basic_ack e w2 delivery_tag of
                     (acked, w3) \<Rightarrow>
                       if acked then (True, w3) else basic_nack e w3 delivery_tag True))
      | Json _ \<Rightarrow> basic_nack e w delivery_tag True)"

text \<open>The three workflow handlers, again one body up to the name of the domain.\<close>

definition workflow_handler :: "env \<Rightarrow> world \<Rightarrow> string \<Rightarrow> dict \<Rightarrow> string \<Rightarrow> world" where
  "workflow_handler e w domain message routing_key =
     (case map_of message ''id'' of
        Some mid \<Rightarrow>
          let audit_log =
                [(''action'', JStr (domain @ ''_workflow_processed'')),
                 (''routing_key'', JStr routing_key),
                 (''message_id'', mid),
                 (''timestamp'', JStr (utcnow e (tick w))),
                 (''content'', dict_get message ''content'' (JStr ''''))]
          in snd (upload_json e (read_clock w)
                    (''/workflow/audit/'' @ domain @ ''_'' @ py_str e mid @ ''.json'')
                    (JObj audit_log))
      | None \<Rightarrow> w)"

definition handle_enrollment_workflow :: "env \<Rightarrow> world \<Rightarrow> dict \<Rightarrow> string \<Rightarrow> world" where
  "handle_enrollment_workflow e w message routing_key =
     workflow_handler e w ''enrollment'' message routing_key"

definition handle_claims_workflow :: "env \<Rightarrow> world \<Rightarrow> dict \<Rightarrow> string \<Rightarrow> world" where
  "handle_claims_workflow e w message routing_key =
     workflow_handler e w ''claims'' message routing_key"

definition handle_payments_workflow :: "env \<Rightarrow> world \<Rightarrow> dict \<Rightarrow> string \<Rightarrow> world" where
  "handle_payments_workflow e w message routing_key =
     workflow_handler e w ''payments'' message routing_key"

definition startswith :: "string \<Rightarrow> string \<Rightarrow> bool" where
  "startswith s p = (take (length p) s = p)"

text \<open>
  \<^verbatim>\<open>process_workflow_message\<close> has the one clause \<^verbatim>\<open>except Exception\<close>: every failure
  to decode the body ends there too.
\<close>

definition process_workflow_message ::
  "env \<Rightarrow> world \<Rightarrow> nat \<Rightarrow> string \<Rightarrow> body \<Rightarrow> bool \<times> world" where
  "process_workflow_message e w delivery_tag routing_key b =
     (case b of
        Json (JObj message) \<Rightarrow>
          let mid = dict_get message ''id'' JNull;
              w1 = (if startswith routing_key ''enrollment.''
                      then handle_enrollment_workflow e w message routing_key
                    else if startswith routing_key ''claims.''
                      then handle_claims_workflow e w message routing_key
                    else if startswith routing_key ''payments.''
                      then handle_payments_workflow e w message routing_key
                    else w);
              record = JObj [(''message'', JObj message),
                             (''routing_key'', JStr routing_key),
                             (''processed_at'', JStr (utcnow e (tick w1))),
                             (''status'', JStr ''processed'')]
          in (case upload_json e (read_clock w1)
                     (''/workflow/processed/'' @ py_str e mid @ ''.json'') record of
                (_, w2) \<Rightarrow>
                  (case basic_ack e w2 delivery_tag of
                     (acked, w3) \<Rightarrow>
                       if acked then (True, w3) else basic_nack e w3 delivery_tag True))
      | _ \<Rightarrow> basic_nack e w delivery_tag True)"

section \<open>Observations\<close>

text \<open>
  \<open>events_since w w'\<close> are the collaborator calls made between two worlds;
  \<open>on_path p\<close> holds of the Dropbox calls on the file \<open>p\<close>.
\<close>

definition events_since :: "world \<Rightarrow> world \<Rightarrow> event list" where
  "events_since w w' = drop (length (trace w)) (trace w')"

fun is_publish :: "event \<Rightarrow> bool" where
  "is_publish (Publish _ _ _ _ _) = True"
| "is_publish _ = False"


fun on_path :: "string \<Rightarrow> event \<Rightarrow> bool" where
  "on_path p (Download q _) = (q = p)"
| "on_path p (Upload q _ _) = (q = p)"
| "on_path p _ = False"

text \<open>
  The client's counter as the code reads it from the stored metadata:
  \<^verbatim>\<open>metadata.get('message_count_today', 0)\<close>.
\<close>

definition stored_count :: "world \<Rightarrow> string \<Rightarrow> int option" where
  "stored_count w client_id =
     (case files w (metadata_path client_id) of
        Some (JObj d) \<Rightarrow> as_int (dict_get d ''message_count_today'' (JInt 0))
      | _ \<Rightarrow> None)"

text \<open>
  Bulk results: the empty result, the bucket-wise concatenation of two results, and the
  number of entries over the three buckets.
\<close>

definition no_results :: bulk_results where
  "no_results = \<lparr>successful = [], failed = [], limit_exceeded = []\<rparr>"

definition append_results :: "bulk_results \<Rightarrow> bulk_results \<Rightarrow> bulk_results" where
  "append_results r1 r2 =
     \<lparr>successful = successful r1 @ successful r2,
      failed = failed r1 @ failed r2,
      limit_exceeded = limit_exceeded r1 @ limit_exceeded r2\<rparr>"

definition entries :: "bulk_results \<Rightarrow> nat" where
  "entries r = length (successful r) + length (failed r) + length (limit_exceeded r)"

section \<open>Example worlds\<close>

text \<open>
  A client \<open>abc\<close> with a daily limit of 2, whose metadata file holds the given reset date
  and count; the date is 2026-11-04. In \<open>env1 dbx chan\<close> the Dropbox call at time \<open>n\<close>
  succeeds when \<open>dbx n\<close>, the channel call when \<open>chan n\<close>; in \<open>env0\<close> all succeed.
\<close>

definition env1 :: "(nat \<Rightarrow> bool) \<Rightarrow> (nat \<Rightarrow> bool) \<Rightarrow> env" where
  "env1 dbx chan =
     \<lparr>uuid4 = (\<lambda>n. ''u-'' @ replicate n CHR ''i''), utcnow = (\<lambda>n. ''2026-11-04T10:00:00''),
      unix_time = (\<lambda>n. 1793786400), today = (\<lambda>n. ''2026-11-04''),
      dbx_ok = dbx, channel_ok = chan, channel = True,
      daily_message_limit = 2, repr = (\<lambda>v. ''?'')\<rparr>"

definition env0 :: env where
  "env0 = env1 (\<lambda>n. True) (\<lambda>n. True)"

definition meta0 :: "string \<Rightarrow> int \<Rightarrow> dict" where
  "meta0 day n = [(''client_id'', JStr ''abc''), (''last_reset'', JStr day), (''message_count_today'', JInt n)]"

definition world0 :: "string \<Rightarrow> int \<Rightarrow> world" where
  "world0 day n = \<lparr>files = [''/clients/abc/metadata.json'' \<mapsto> JObj (meta0 day n)], tick = 0, trace = []\<rparr>"

definition msg0 :: MessageCreate where
  "msg0 = \<lparr>mc_client_id = ''abc'', mc_message_type = CLAIM_UPDATE, mc_content = ''hi'', mc_attachments = None, mc_metadata = None\<rparr>"

text \<open>The same client with one archived envelope \<open>m1\<close> that was never resent.\<close>

definition envelope0 :: dict where
  "envelope0 =
     [(''id'', JStr ''m1''), (''type'', JStr ''claim_update''), (''content'', JStr ''hi''),
      (''timestamp'', JStr ''2026-11-04T09:00:00''), (''client_id'', JStr ''abc''),
      (''attachments'', JList []), (''metadata'', JObj [])]"

definition world_archived :: world where
  "world_archived =
     \<lparr>files = [''/clients/abc/metadata.json'' \<mapsto> JObj (meta0 ''2026-11-04'' 2),
               ''/clients/abc/messages/m1.json'' \<mapsto> JObj envelope0],
      tick = 0, trace = []\<rparr>"

text \<open>
  Three clients on 2026-11-04 with a daily limit of 2: \<open>aaa\<close> has sent 2 messages,
  \<open>bbb\<close> none, \<open>ccc\<close> one; and one bulk item for each.
\<close>

definition world3 :: world where
  "world3 =
     \<lparr>files = [''/clients/aaa/metadata.json'' \<mapsto>
                 JObj [(''last_reset'', JStr ''2026-11-04''), (''message_count_today'', JInt 2)],
               ''/clients/bbb/metadata.json'' \<mapsto>
                 JObj [(''last_reset'', JStr ''2026-11-04''), (''message_count_today'', JInt 0)],
               ''/clients/ccc/metadata.json'' \<mapsto>
                 JObj [(''last_reset'', JStr ''2026-11-04''), (''message_count_today'', JInt 1)]],
      tick = 0, trace = []\<rparr>"

definition bulk_item0 :: "string \<Rightarrow> dict" where
  "bulk_item0 c = [(''client_id'', JStr c), (''type'', JStr ''payment_reminder''),
                   (''content'', JStr ''premium due'')]"

section \<open>Lemmas about the collaborators\<close>

lemmas run_defs =
  env0_def env1_def world0_def meta0_def msg0_def envelope0_def world_archived_def
  step_def read_clock_def py_str_def dict_get_def
  upload_json_def download_json_def metadata_path_def archive_path_def
  get_client_metadata_def update_client_metadata_def
  publish_message_def publish_client_message_def publish_workflow_message_def
  check_message_limit_def increment_message_counter_def client_envelope_def sent_receipt_def
  send_client_message_def workflow_archive_path_def send_workflow_message_def
  send_notification_def resend_failed_message_def
  infrastructure_def setup_infrastructure_def
  queue_arguments_def client_queue_calls_def create_client_queue_def
  world3_def bulk_item0_def MessageType_of_def new_MessageCreate_def add_failed_def
  bulk_item_def send_bulk_messages_def
  basic_ack_def basic_nack_def client_handler_def handle_document_request_def
  handle_claim_update_def handle_payment_reminder_def handle_enrollment_notification_def
  handle_beneficiary_update_def handle_system_alert_def dispatch_def delivery_path_def
  process_message_def workflow_handler_def handle_enrollment_workflow_def
  handle_claims_workflow_def handle_payments_workflow_def startswith_def
  process_workflow_message_def
  events_since_def Let_def

lemma map_of_update: "map_of (AList.update k v d) k' = (if k' = k then Some v else map_of d k')"
  by (simp add: update_conv')

lemma upload_json_simps [simp]:
  "fst (upload_json e w p d) = dbx_ok e (tick w)"
  "trace (snd (upload_json e w p d)) = trace w @ [Upload p d (dbx_ok e (tick w))]"
  "tick (snd (upload_json e w p d)) = Suc (tick w)"
  "files (snd (upload_json e w p d)) = (if dbx_ok e (tick w) then (files w)(p \<mapsto> d) else files w)"
  by (simp_all add: upload_json_def step_def)

lemma download_json_simps [simp]:
  "fst (download_json e w p) = (if dbx_ok e (tick w) then files w p else None)"
  "trace (snd (download_json e w p)) =
     trace w @ [Download p (dbx_ok e (tick w) \<and> files w p \<noteq> None)]"
  "tick (snd (download_json e w p)) = Suc (tick w)"
  "files (snd (download_json e w p)) = files w"
  by (simp_all add: download_json_def step_def)

lemma read_clock_simps [simp]:
  "trace (read_clock w) = trace w"
  "tick (read_clock w) = Suc (tick w)"
  "files (read_clock w) = files w"
  by (simp_all add: read_clock_def)

lemma publish_message_simps [simp]:
  "files (snd (publish_message e w x rk m prio)) = files w"
  "\<exists>pr. trace (snd (publish_message e w x rk m prio)) =
     trace w @ [Publish x rk m pr (fst (publish_message e w x rk m prio))]"
  by (simp_all add: publish_message_def step_def read_clock_def Let_def split: json.splits)

lemma check_files:
  "p \<noteq> metadata_path c \<Longrightarrow> files (snd (check_message_limit e w c)) p = files w p"
  by (simp add: check_message_limit_def get_client_metadata_def update_client_metadata_def
      Let_def case_prod_beta split: option.splits json.splits)

lemma check_events:
  "\<exists>evs. trace (snd (check_message_limit e w c)) = trace w @ evs
        \<and> (\<forall>ev\<in>set evs. on_path (metadata_path c) ev)"
  by (simp add: check_message_limit_def get_client_metadata_def update_client_metadata_def
      Let_def case_prod_beta split: option.splits json.splits)

lemma increment_events:
  "\<exists>evs. trace (snd (increment_message_counter e w c)) = trace w @ evs
        \<and> (\<forall>ev\<in>set evs. on_path (metadata_path c) ev)"
  by (simp add: increment_message_counter_def get_client_metadata_def update_client_metadata_def
      Let_def case_prod_beta split: option.splits json.splits)

lemma on_path_not_publish: "on_path p ev \<Longrightarrow> \<not> is_publish ev"
  by (cases ev) simp_all

lemma archive_not_metadata [simp]: "archive_path c mid \<noteq> metadata_path c"
  "metadata_path c \<noteq> archive_path c mid"
  by (simp_all add: archive_path_def metadata_path_def)

lemma step_simps [simp]:
  "trace (step ev w) = trace w @ [ev]"
  "tick (step ev w) = Suc (tick w)"
  "files (step ev w) = files w"
  by (simp_all add: step_def)

lemma download_json_SomeD:
  "download_json e w p = (Some v, w1) \<Longrightarrow>
     dbx_ok e (tick w) \<and> files w p = Some v \<and> w1 = step (Download p True) w"
  by (auto simp add: download_json_def split: if_splits)

lemma get_client_metadata_SomeD:
  "get_client_metadata e w c = (Some v, w1) \<Longrightarrow>
     dbx_ok e (tick w) \<and> files w (metadata_path c) = Some v
     \<and> w1 = step (Download (metadata_path c) True) w"
  unfolding get_client_metadata_def by (rule download_json_SomeD)

lemma events_since_append [simp]: "trace w' = trace w @ evs \<Longrightarrow> events_since w w' = evs"
  by (simp add: events_since_def)

lemma publish_client_trace:
  "\<exists>pr. trace (snd (publish_client_message e w c m)) =
     trace w @ [Publish ''insurance.direct'' c m pr (fst (publish_client_message e w c m))]"
  unfolding publish_client_message_def by (rule publish_message_simps(2))

lemma publish_client_files [simp]: "files (snd (publish_client_message e w c m)) = files w"
  by (simp add: publish_client_message_def)

lemma send_client_message_unfold:
  "send_client_message e w c md =
     (let w1 = snd (check_message_limit e w c);
          mid = uuid4 e (tick w1);
          ts = utcnow e (Suc (tick w1));
          m = client_envelope mid ts c md;
          w4 = snd (upload_json e (read_clock (read_clock w1)) (archive_path c mid) m);
          w5 = snd (publish_client_message e w4 c m)
      in if \<not> fst (check_message_limit e w c)
         then (Inl (MessageLimitExceededException (''Daily limit exceeded for client '' @ c)), w1)
         else if \<not> dbx_ok e (Suc (Suc (tick w1))) then (Inr None, w4)
         else if \<not> fst (publish_client_message e w4 c m) then (Inr None, w5)
         else (Inr (Some (sent_receipt mid ''client_id'' c ts)),
               snd (increment_message_counter e w5 c)))"
  by (simp add: send_client_message_def Let_def case_prod_beta)

lemma send_client_message_trace:
  fixes e w c md
  defines "w1 \<equiv> snd (check_message_limit e w c)"
  defines "mid \<equiv> uuid4 e (tick w1)" and "ts \<equiv> utcnow e (Suc (tick w1))"
  defines "a \<equiv> archive_path c mid" and "m \<equiv> client_envelope mid ts c md"
  shows "\<exists>post pr w5.
     (\<forall>ev\<in>set post. on_path (metadata_path c) ev) \<and>
     (case send_client_message e w c md of (r, w') \<Rightarrow>
        (\<not> fst (check_message_limit e w c) \<and> w' = w1
           \<and> r = Inl (MessageLimitExceededException (''Daily limit exceeded for client '' @ c)))
      \<or> (fst (check_message_limit e w c) \<and> r = Inr None
           \<and> trace w' = trace w1 @ [Upload a m False] \<and> files w' = files w1)
      \<or> (fst (check_message_limit e w c) \<and> r = Inr None
           \<and> trace w' = trace w1 @ [Upload a m True, Publish ''insurance.direct'' c m pr False]
           \<and> files w' = (files w1)(a \<mapsto> m))
      \<or> (fst (check_message_limit e w c) \<and> r = Inr (Some (sent_receipt mid ''client_id'' c ts))
           \<and> trace w' = trace w1 @ [Upload a m True, Publish ''insurance.direct'' c m pr True] @ post
           \<and> files w5 = (files w1)(a \<mapsto> m)
           \<and> w' = snd (increment_message_counter e w5 c)))"
proof -
  define w4 where "w4 = snd (upload_json e (read_clock (read_clock w1)) a m)"
  have w4t: "trace w4 = trace w1 @ [Upload a m (dbx_ok e (Suc (Suc (tick w1))))]"
    by (simp add: w4_def)
  have w4f: "files w4 = (if dbx_ok e (Suc (Suc (tick w1))) then (files w1)(a \<mapsto> m) else files w1)"
    by (simp add: w4_def)
  define w5 where "w5 = snd (publish_client_message e w4 c m)"
  obtain pr where pr: "trace w5 =
     trace w4 @ [Publish ''insurance.direct'' c m pr (fst (publish_client_message e w4 c m))]"
    unfolding w5_def using publish_client_trace by blast
  have w5f: "files w5 = files w4"
    by (simp add: w5_def)
  obtain post where post: "trace (snd (increment_message_counter e w5 c)) = trace w5 @ post"
    "\<forall>ev\<in>set post. on_path (metadata_path c) ev"
    using increment_events by blast
  have unf: "send_client_message e w c md =
      (if \<not> fst (check_message_limit e w c)
         then (Inl (MessageLimitExceededException (''Daily limit exceeded for client '' @ c)), w1)
         else if \<not> dbx_ok e (Suc (Suc (tick w1))) then (Inr None, w4)
         else if \<not> fst (publish_client_message e w4 c m) then (Inr None, w5)
         else (Inr (Some (sent_receipt mid ''client_id'' c ts)),
               snd (increment_message_counter e w5 c)))"
    unfolding send_client_message_unfold w1_def mid_def ts_def a_def m_def w4_def w5_def Let_def ..
  let ?P = "\<lambda>(r, w').
        (\<not> fst (check_message_limit e w c) \<and> w' = w1
           \<and> r = Inl (MessageLimitExceededException (''Daily limit exceeded for client '' @ c)))
      \<or> (fst (check_message_limit e w c) \<and> r = Inr None
           \<and> trace w' = trace w1 @ [Upload a m False] \<and> files w' = files w1)
      \<or> (fst (check_message_limit e w c) \<and> r = Inr None
           \<and> trace w' = trace w1 @ [Upload a m True, Publish ''insurance.direct'' c m pr False]
           \<and> files w' = (files w1)(a \<mapsto> m))
      \<or> (fst (check_message_limit e w c) \<and> r = Inr (Some (sent_receipt mid ''client_id'' c ts))
           \<and> trace w' = trace w1 @ [Upload a m True, Publish ''insurance.direct'' c m pr True] @ post
           \<and> files w5 = (files w1)(a \<mapsto> m)
           \<and> w' = snd (increment_message_counter e w5 c))"
  have "?P (send_client_message e w c md)"
  proof (cases "fst (check_message_limit e w c)")
    case False
    then show ?thesis by (simp add: unf)
  next
    case allowed: True
    show ?thesis
    proof (cases "dbx_ok e (Suc (Suc (tick w1)))")
      case False
      with allowed show ?thesis by (simp add: unf w4t w4f)
    next
      case archived: True
      show ?thesis
      proof (cases "fst (publish_client_message e w4 c m)")
        case False
        with allowed archived show ?thesis by (simp add: unf pr w4t w4f w5f)
      next
        case True
        have "files w5 = (files w1)(a \<mapsto> m)"
          using archived by (simp add: w5f w4f)
        with True allowed archived show ?thesis by (simp add: unf pr w4t post(1))
      qed
    qed
  qed
  with post(2) show ?thesis by (simp only: case_prod_beta) blast
qed

lemma send_workflow_message_trace:
  fixes e w rk mt content metadata
  defines "mid \<equiv> uuid4 e (tick w)"
  defines "m \<equiv> JObj [(''id'', JStr mid), (''type'', JStr mt),
                          (''content'', JStr content), (''timestamp'', JStr (utcnow e (Suc (tick w)))),
                          (''routing_key'', JStr rk),
                          (''metadata'', JObj (case metadata of None \<Rightarrow> [] | Some d \<Rightarrow> d))]"
  shows "\<exists>pr ok.
        (fst (send_workflow_message e w rk mt content metadata) = None
         \<and> trace (snd (send_workflow_message e w rk mt content metadata)) =
             trace w @ [Upload (workflow_archive_path mid) m False])
      \<or> (trace (snd (send_workflow_message e w rk mt content metadata)) =
             trace w @ [Upload (workflow_archive_path mid) m True,
                        Publish ''insurance.workflow'' rk m pr ok])"
proof -
  define w3 where "w3 = snd (upload_json e (read_clock (read_clock w)) (workflow_archive_path mid) m)"
  have w3t: "trace w3 = trace w @ [Upload (workflow_archive_path mid) m (dbx_ok e (Suc (Suc (tick w))))]"
    by (simp add: w3_def)
  obtain pr where pr: "trace (snd (publish_message e w3 ''insurance.workflow'' rk m 0)) =
     trace w3 @ [Publish ''insurance.workflow'' rk m pr (fst (publish_message e w3 ''insurance.workflow'' rk m 0))]"
    using publish_message_simps(2) by blast
  have unf: "send_workflow_message e w rk mt content metadata =
     (if \<not> dbx_ok e (Suc (Suc (tick w))) then (None, w3)
      else if \<not> fst (publish_message e w3 ''insurance.workflow'' rk m 0)
        then (None, snd (publish_message e w3 ''insurance.workflow'' rk m 0))
      else (Some (sent_receipt mid ''routing_key'' rk (utcnow e (Suc (tick w)))),
            snd (publish_message e w3 ''insurance.workflow'' rk m 0)))"
    unfolding w3_def m_def mid_def
    by (simp add: send_workflow_message_def Let_def case_prod_beta publish_workflow_message_def)
  have "(fst (send_workflow_message e w rk mt content metadata) = None
         \<and> trace (snd (send_workflow_message e w rk mt content metadata)) =
             trace w @ [Upload (workflow_archive_path mid) m False])
      \<or> (trace (snd (send_workflow_message e w rk mt content metadata)) =
             trace w @ [Upload (workflow_archive_path mid) m True,
                        Publish ''insurance.workflow'' rk m pr
                          (fst (publish_message e w3 ''insurance.workflow'' rk m 0))])"
    using w3t pr by (simp add: unf)
  then show ?thesis by blast
qed

lemma increment_metadata:
  "files (snd (increment_message_counter e w c)) (metadata_path c) = files w (metadata_path c)
   \<or> (\<exists>d n. files w (metadata_path c) = Some (JObj d)
        \<and> as_int (dict_get d ''message_count_today'' (JInt 0)) = Some n
        \<and> files (snd (increment_message_counter e w c)) (metadata_path c) =
            Some (JObj (AList.update ''last_message_sent'' (JStr (utcnow e (Suc (tick w))))
                         (AList.update ''message_count_today'' (JInt (n + 1)) d))))"
  by (simp add: increment_message_counter_def get_client_metadata_def update_client_metadata_def
      Let_def case_prod_beta split: option.splits json.splits)

lemma increment_count:
  "stored_count (snd (increment_message_counter e w c)) c = stored_count w c
   \<or> (\<exists>n. stored_count w c = Some n
        \<and> stored_count (snd (increment_message_counter e w c)) c = Some (n + 1))"
  using increment_metadata [of e w c]
  by (auto simp add: stored_count_def dict_get_def map_of_update)

lemma check_metadata:
  "files (snd (check_message_limit e w c)) (metadata_path c) = files w (metadata_path c)
   \<or> (\<exists>d. files (snd (check_message_limit e w c)) (metadata_path c) = Some (JObj d)
        \<and> map_of d ''message_count_today'' = Some (JInt 0)
        \<and> map_of d ''last_reset'' = Some (JStr (today e (Suc (tick w)))))"
  by (simp add: check_message_limit_def get_client_metadata_def update_client_metadata_def
      Let_def case_prod_beta map_of_update split: option.splits json.splits)

lemma check_same_day:
  "fst (get_client_metadata e w c) = Some (JObj d) \<Longrightarrow>
   map_of d ''last_reset'' = Some (JStr (today e (Suc (tick w)))) \<Longrightarrow>
   files (snd (check_message_limit e w c)) = files w"
  by (auto simp add: check_message_limit_def get_client_metadata_def
      Let_def case_prod_beta split: option.splits json.splits if_splits)

lemma check_first_event:
  "\<exists>rest. trace (snd (check_message_limit e w c)) =
     trace w @ Download (metadata_path c) (dbx_ok e (tick w) \<and> files w (metadata_path c) \<noteq> None) # rest"
  by (simp add: check_message_limit_def get_client_metadata_def update_client_metadata_def
      Let_def case_prod_beta split: option.splits json.splits)

lemma send_client_message_first_event:
  "\<exists>rest. trace (snd (send_client_message e w c md)) =
     trace w @ Download (metadata_path c) (dbx_ok e (tick w) \<and> files w (metadata_path c) \<noteq> None) # rest"
proof -
  define w1 where "w1 = snd (check_message_limit e w c)"
  define a where "a = archive_path c (uuid4 e (tick w1))"
  define m where "m = client_envelope (uuid4 e (tick w1)) (utcnow e (Suc (tick w1))) c md"
  obtain rest where rest: "trace w1 =
     trace w @ Download (metadata_path c) (dbx_ok e (tick w) \<and> files w (metadata_path c) \<noteq> None) # rest"
    unfolding w1_def using check_first_event by blast
  obtain post pr w5 where
    "case send_client_message e w c md of (r, w') \<Rightarrow>
        (w' = w1)
      \<or> (trace w' = trace w1 @ [Upload a m False])
      \<or> (trace w' = trace w1 @ [Upload a m True, Publish ''insurance.direct'' c m pr False])
      \<or> (trace w' = trace w1 @ [Upload a m True, Publish ''insurance.direct'' c m pr True] @ post)"
    using send_client_message_trace [of c e w md]
    unfolding w1_def [symmetric] a_def [symmetric] m_def [symmetric]
    by (cases "send_client_message e w c md") auto
  then show ?thesis
    using rest by (cases "send_client_message e w c md") auto
qed

lemma calls_trace:
  "\<exists>k. trace (snd (calls e w cs)) =
          trace w @ map (\<lambda>c. call_event c True) (take k cs)
            @ (if fst (calls e w cs) then [] else [call_event (cs ! k) False])
      \<and> (if fst (calls e w cs) then k = length cs else k < length cs)"
proof (induction cs arbitrary: w)
  case Nil
  then show ?case by simp
next
  case (Cons c cs)
  show ?case
  proof (cases "channel_ok e (tick w)")
    case False
    then show ?thesis by (auto intro!: exI [of _ 0])
  next
    case True
    from Cons.IH [of "step (call_event c True) w"] obtain k where
      k: "trace (snd (calls e (step (call_event c True) w) cs)) =
          trace (step (call_event c True) w) @ map (\<lambda>c. call_event c True) (take k cs)
            @ (if fst (calls e (step (call_event c True) w) cs) then [] else [call_event (cs ! k) False])"
         "if fst (calls e (step (call_event c True) w) cs) then k = length cs else k < length cs"
      by blast
    with True show ?thesis
      by (auto intro!: exI [of _ "Suc k"] split: if_splits)
  qed
qed

lemma append_results_simps [simp]:
  "successful (append_results r1 r2) = successful r1 @ successful r2"
  "failed (append_results r1 r2) = failed r1 @ failed r2"
  "limit_exceeded (append_results r1 r2) = limit_exceeded r1 @ limit_exceeded r2"
  "append_results r no_results = r"
  "append_results no_results r = r"
  "append_results (append_results r1 r2) r3 = append_results r1 (append_results r2 r3)"
  by (simp_all add: append_results_def no_results_def)

lemma bulk_item_append:
  "bulk_item e w r m =
     (append_results r (fst (bulk_item e w no_results m)), snd (bulk_item e w no_results m))"
  by (simp add: bulk_item_def add_failed_def append_results_def no_results_def case_prod_beta
      split: option.splits sum.splits)

lemma bulk_item_entries: "entries (fst (bulk_item e w no_results m)) = 1"
  by (simp add: bulk_item_def add_failed_def entries_def no_results_def case_prod_beta
      split: option.splits sum.splits)

lemma bulk_loop_append:
  "bulk_loop e w r ms =
     (append_results r (fst (bulk_loop e w no_results ms)), snd (bulk_loop e w no_results ms))"
proof (induction ms arbitrary: w r)
  case Nil
  then show ?case by simp
next
  case (Cons m ms)
  define i1 where "i1 = fst (bulk_item e w no_results m)"
  define w1 where "w1 = snd (bulk_item e w no_results m)"
  define L where "L = fst (bulk_loop e w1 no_results ms)"
  define W where "W = snd (bulk_loop e w1 no_results ms)"
  have item: "bulk_item e w r m = (append_results r i1, w1)" for r
    unfolding i1_def w1_def by (rule bulk_item_append)
  have "bulk_loop e w r (m # ms) = bulk_loop e w1 (append_results r i1) ms"
    by (simp add: item)
  also have "\<dots> = (append_results (append_results r i1) L, W)"
    unfolding L_def W_def by (rule Cons.IH)
  finally have lhs: "bulk_loop e w r (m # ms) = (append_results r (append_results i1 L), W)"
    by simp
  have "bulk_loop e w no_results (m # ms) = bulk_loop e w1 i1 ms"
    by (simp add: item)
  also have "\<dots> = (append_results i1 L, W)"
    unfolding L_def W_def by (rule Cons.IH)
  finally show ?case
    unfolding lhs by simp
qed

lemma bulk_loop_entries: "entries (fst (bulk_loop e w no_results ms)) = length ms"
proof (induction ms arbitrary: w)
  case Nil
  then show ?case by (simp add: entries_def no_results_def)
next
  case (Cons m ms)
  have "bulk_loop e w no_results (m # ms) =
      bulk_loop e (snd (bulk_item e w no_results m)) (fst (bulk_item e w no_results m)) ms"
    by (simp add: case_prod_beta)
  also have "\<dots> = (append_results (fst (bulk_item e w no_results m))
       (fst (bulk_loop e (snd (bulk_item e w no_results m)) no_results ms)),
      snd (bulk_loop e (snd (bulk_item e w no_results m)) no_results ms))"
    by (rule bulk_loop_append)
  finally show ?case
    using Cons.IH [of "snd (bulk_item e w no_results m)"] bulk_item_entries [of e w m]
    by (simp add: entries_def)
qed

lemma bulk_loop_split:
  "bulk_loop e w r (xs @ ys) =
     bulk_loop e (snd (bulk_loop e w r xs)) (fst (bulk_loop e w r xs)) ys"
  by (induction xs arbitrary: w r) (simp_all add: case_prod_beta)

lemma bulk_item_over_quota:
  "map_of m ''client_id'' = Some c \<Longrightarrow> \<not> fst (check_message_limit e w (py_str e c)) \<Longrightarrow>
   bulk_item e w r m =
     (r\<lparr>limit_exceeded := limit_exceeded r @ [(c, Daily_limit_exceeded)]\<rparr>,
      snd (check_message_limit e w (py_str e c)))"
  by (simp add: bulk_item_def case_prod_beta)



lemma basic_ack_simps [simp]:
  "fst (basic_ack e w t) = channel_ok e (tick w)"
  "trace (snd (basic_ack e w t)) = trace w @ [Ack t (channel_ok e (tick w))]"
  "tick (snd (basic_ack e w t)) = Suc (tick w)"
  by (simp_all add: basic_ack_def Let_def)

lemma basic_nack_simps [simp]:
  "fst (basic_nack e w t rq) = channel_ok e (tick w)"
  "trace (snd (basic_nack e w t rq)) = trace w @ [Nack t rq (channel_ok e (tick w))]"
  by (simp_all add: basic_nack_def Let_def)

section \<open>The claims\<close>

text \<open>
  C1 (admission boundary). The check reads the client's metadata; when that read returns a
  dictionary whose \<open>last_reset\<close> is the date the check then reads and whose
  \<open>message_count_today\<close> is the integer \<open>n\<close> (0 when the key is absent),
  \<^verbatim>\<open>check_message_limit\<close> answers \<open>n < daily_limit\<close>.
  If \<open>n\<close> is below the limit, \<^verbatim>\<open>send_client_message\<close> does not raise and goes on to
  upload the envelope to the archive; otherwise it raises
  \<^verbatim>\<open>MessageLimitExceededException\<close> having done nothing but that read. With a limit of
  \<open>N\<close>, the \<open>N\<close>-th attempt of a day (\<open>n = N - 1\<close>) is admitted and the next one
  (\<open>n = N\<close>) is denied.
\<close>

theorem admission_boundary:
  assumes "get_client_metadata e w client_id = (Some (JObj d), w1)"
      and "map_of d ''last_reset'' = Some (JStr (today e (tick w1)))"
      and "dict_get d ''message_count_today'' (JInt 0) = JInt n"
  shows "fst (check_message_limit e w client_id) = (n < daily_message_limit e)
       \<and> (n < daily_message_limit e \<longrightarrow>
            (\<forall>x. fst (send_client_message e w client_id md) \<noteq> Inl x)
          \<and> (let mid = uuid4 e (Suc (tick w1)); ts = utcnow e (Suc (Suc (tick w1)))
             in \<exists>ok. take 2 (events_since w (snd (send_client_message e w client_id md))) =
                  [Download (metadata_path client_id) True,
                   Upload (archive_path client_id mid) (client_envelope mid ts client_id md) ok]))
       \<and> (\<not> n < daily_message_limit e \<longrightarrow>
            send_client_message e w client_id md =
              (Inl (MessageLimitExceededException (''Daily limit exceeded for client '' @ client_id)),
               read_clock w1))"
proof -
  from assms(2) have ne: "d \<noteq> []" by auto
  have chk: "check_message_limit e w client_id = (n < daily_message_limit e, read_clock w1)"
    using assms ne by (simp add: check_message_limit_def Let_def)
  have t1: "trace w1 = trace w @ [Download (metadata_path client_id) True]" 
    using get_client_metadata_SomeD [OF assms(1)] by simp
  define mid where "mid = uuid4 e (Suc (tick w1))"
  define m where "m = client_envelope mid (utcnow e (Suc (Suc (tick w1)))) client_id md"
  define a where "a = archive_path client_id mid"
  define D where "D = Download (metadata_path client_id) True"
  obtain post pr where
    "case send_client_message e w client_id md of (r, w') \<Rightarrow>
        (\<not> n < daily_message_limit e \<and> w' = read_clock w1
           \<and> r = Inl (MessageLimitExceededException (''Daily limit exceeded for client '' @ client_id)))
      \<or> (n < daily_message_limit e \<and> r = Inr None
           \<and> trace w' = trace w @ [D, Upload a m False])
      \<or> (n < daily_message_limit e \<and> r = Inr None
           \<and> trace w' = trace w @ [D, Upload a m True, Publish ''insurance.direct'' client_id m pr False])
      \<or> (n < daily_message_limit e \<and> (\<exists>rc. r = Inr (Some rc))
           \<and> trace w' = trace w @ [D, Upload a m True, Publish ''insurance.direct'' client_id m pr True] @ post)"
    using send_client_message_trace [of client_id e w md]
    by (auto simp add: chk t1 mid_def m_def a_def D_def)
  then have "(n < daily_message_limit e \<longrightarrow>
            (\<forall>x. fst (send_client_message e w client_id md) \<noteq> Inl x)
          \<and> (\<exists>ok. take 2 (events_since w (snd (send_client_message e w client_id md))) = [D, Upload a m ok]))
       \<and> (\<not> n < daily_message_limit e \<longrightarrow>
            send_client_message e w client_id md =
              (Inl (MessageLimitExceededException (''Daily limit exceeded for client '' @ client_id)),
               read_clock w1))"
    by (cases "send_client_message e w client_id md") auto
  then show ?thesis
    by (simp add: chk Let_def mid_def m_def a_def D_def)
qed

theorem admission_boundary_witness:
  "fst (check_message_limit env0 (world0 ''2026-11-04'' 1) ''abc'')
   \<and> \<not> fst (check_message_limit env0 (world0 ''2026-11-04'' 2) ''abc'')
   \<and> fst (send_client_message env0 (world0 ''2026-11-04'' 2) ''abc'' msg0) =
       Inl (MessageLimitExceededException ''Daily limit exceeded for client abc'')"
  using admission_boundary [where e = env0 and w = "world0 ''2026-11-04'' 1"
      and client_id = "''abc''" and d = "meta0 ''2026-11-04'' 1"
      and ?w1.0 = "step (Download (metadata_path ''abc'') True) (world0 ''2026-11-04'' 1)"
      and n = 1 and md = msg0]
    admission_boundary [where e = env0 and w = "world0 ''2026-11-04'' 2"
      and client_id = "''abc''" and d = "meta0 ''2026-11-04'' 2"
      and ?w1.0 = "step (Download (metadata_path ''abc'') True) (world0 ''2026-11-04'' 2)"
      and n = 2 and md = msg0]
  by (simp add: get_client_metadata_def download_json_def env0_def env1_def world0_def meta0_def
      metadata_path_def dict_get_def)

text \<open>
  C7 (quota reset). When the metadata read by the check is a non-empty dictionary whose
  \<open>last_reset\<close> is not the date the check reads, the dictionary gets
  \<open>message_count_today = 0\<close> and \<open>last_reset\<close> = that date, this dictionary is uploaded to
  the client's metadata file (and is what the file holds afterwards if the upload
  succeeds), and the answer is \<open>0 < daily_limit\<close>: the comparison is made on the counter
  after the reset, whatever the stale count was.
\<close>

theorem reset_before_decision:
  assumes "get_client_metadata e w client_id = (Some (JObj d), w1)"
      and "d \<noteq> []"
      and "map_of d ''last_reset'' \<noteq> Some (JStr (today e (tick w1)))"
  shows "let day = today e (tick w1);
             d' = AList.update ''last_reset'' (JStr day)
                    (AList.update ''message_count_today'' (JInt 0) d);
             ok = dbx_ok e (Suc (tick w1));
             (allowed, w') = check_message_limit e w client_id
         in map_of d' ''message_count_today'' = Some (JInt 0)
          \<and> map_of d' ''last_reset'' = Some (JStr day)
          \<and> events_since w1 w' = [Upload (metadata_path client_id) (JObj d') ok]
          \<and> files w' = (if ok then (files w1)(metadata_path client_id \<mapsto> JObj d') else files w1)
          \<and> allowed = (0 < daily_message_limit e)"
  using assms
  by (simp add: check_message_limit_def Let_def map_of_update dict_get_def
      update_client_metadata_def events_since_def)

theorem reset_before_decision_witness:
  "fst (check_message_limit env0 (world0 ''2026-11-03'' 5) ''abc'')
   \<and> files (snd (check_message_limit env0 (world0 ''2026-11-03'' 5) ''abc''))
        ''/clients/abc/metadata.json'' =
      Some (JObj [(''client_id'', JStr ''abc''), (''last_reset'', JStr ''2026-11-04''),
                  (''message_count_today'', JInt 0)])"
  using reset_before_decision [where e = env0 and w = "world0 ''2026-11-03'' 5"
      and client_id = "''abc''" and d = "meta0 ''2026-11-03'' 5"
      and ?w1.0 = "step (Download (metadata_path ''abc'') True) (world0 ''2026-11-03'' 5)"]
  by (simp add: get_client_metadata_def download_json_def env0_def env1_def world0_def meta0_def
      metadata_path_def Let_def case_prod_beta)

text \<open>
  C4 (archive before publish). In the collaborator calls of one \<^verbatim>\<open>send_client_message\<close>
  and of one \<^verbatim>\<open>send_workflow_message\<close>: if the upload of the envelope to its archive
  path failed, the call returns \<^verbatim>\<open>None\<close> and \<^verbatim>\<open>publish_message\<close> was never called; and
  whenever \<^verbatim>\<open>publish_message\<close> was called with a message, the successful upload of that
  message to the archive path is among the calls before the first publish.
\<close>

theorem archive_before_publish:
  "(let (r, w') = send_client_message e w client_id md; evs = events_since w w'
    in ((\<exists>mid m. Upload (archive_path client_id mid) m False \<in> set evs) \<longrightarrow>
          r = Inr None \<and> (\<forall>ev\<in>set evs. \<not> is_publish ev))
     \<and> (\<forall>x rk m pr ok. Publish x rk m pr ok \<in> set evs \<longrightarrow>
          (\<exists>mid. Upload (archive_path client_id mid) m True
                   \<in> set (takeWhile (\<lambda>ev. \<not> is_publish ev) evs))))
 \<and> (let (r, w') = send_workflow_message e w routing_key message_type content metadata;
         evs = events_since w w'
    in ((\<exists>mid m. Upload (workflow_archive_path mid) m False \<in> set evs) \<longrightarrow>
          r = None \<and> (\<forall>ev\<in>set evs. \<not> is_publish ev))
     \<and> (\<forall>x rk m pr ok. Publish x rk m pr ok \<in> set evs \<longrightarrow>
          (\<exists>mid. Upload (workflow_archive_path mid) m True
                   \<in> set (takeWhile (\<lambda>ev. \<not> is_publish ev) evs))))"
proof (intro conjI)
  define w1 where "w1 = snd (check_message_limit e w client_id)"
  define a where "a = archive_path client_id (uuid4 e (tick w1))"
  define m where "m = client_envelope (uuid4 e (tick w1)) (utcnow e (Suc (tick w1))) client_id md"
  obtain pre where pre: "trace w1 = trace w @ pre"
      "\<forall>ev\<in>set pre. on_path (metadata_path client_id) ev"
    unfolding w1_def using check_events by blast
  from pre(2) have np: "\<And>x. x \<in> set pre \<Longrightarrow> \<not> is_publish x"
    using on_path_not_publish by blast
  from pre(2) have na: "\<And>mid m ok. Upload (archive_path client_id mid) m ok \<notin> set pre"
    by force
  from pre(2) have np': "\<And>x rk m pr ok. Publish x rk m pr ok \<notin> set pre"
    by force
  obtain post pr where post: "\<forall>ev\<in>set post. on_path (metadata_path client_id) ev"
    and sh: "case send_client_message e w client_id md of (r, w') \<Rightarrow>
        (\<exists>x. r = Inl x) \<and> trace w' = trace w @ pre
      \<or> (r = Inr None \<and> trace w' = trace w @ pre @ [Upload a m False])
      \<or> (r = Inr None \<and> trace w' = trace w @ pre @ [Upload a m True, Publish ''insurance.direct'' client_id m pr False])
      \<or> (trace w' = trace w @ pre @ [Upload a m True, Publish ''insurance.direct'' client_id m pr True] @ post)"
    using send_client_message_trace [of client_id e w md] pre(1)
    unfolding w1_def [symmetric] a_def [symmetric] m_def [symmetric]
    by (cases "send_client_message e w client_id md") auto
  from post have npost: "\<And>x. x \<in> set post \<Longrightarrow> \<not> is_publish x"
    using on_path_not_publish by blast
  from post have napost: "\<And>mid m ok. Upload (archive_path client_id mid) m ok \<notin> set post"
    by force
  from post have npost': "\<And>x rk m pr ok. Publish x rk m pr ok \<notin> set post"
    by force
  have "let (r, w') = send_client_message e w client_id md; evs = events_since w w'
    in ((\<exists>mid m. Upload (archive_path client_id mid) m False \<in> set evs) \<longrightarrow>
          r = Inr None \<and> (\<forall>ev\<in>set evs. \<not> is_publish ev))
     \<and> (\<forall>x rk m pr ok. Publish x rk m pr ok \<in> set evs \<longrightarrow>
          Upload a m True \<in> set (takeWhile (\<lambda>ev. \<not> is_publish ev) evs))"
    using sh np na npost napost np' npost'
    by (cases "send_client_message e w client_id md")
       (auto simp add: takeWhile_append2 a_def)
  then show "let (r, w') = send_client_message e w client_id md; evs = events_since w w'
    in ((\<exists>mid m. Upload (archive_path client_id mid) m False \<in> set evs) \<longrightarrow>
          r = Inr None \<and> (\<forall>ev\<in>set evs. \<not> is_publish ev))
     \<and> (\<forall>x rk m pr ok. Publish x rk m pr ok \<in> set evs \<longrightarrow>
          (\<exists>mid. Upload (archive_path client_id mid) m True
                   \<in> set (takeWhile (\<lambda>ev. \<not> is_publish ev) evs)))"
    unfolding a_def by (simp only: Let_def case_prod_beta) blast
next
  define mid where "mid = uuid4 e (tick w)"
  define m where "m = JObj [(''id'', JStr mid), (''type'', JStr message_type),
      (''content'', JStr content), (''timestamp'', JStr (utcnow e (Suc (tick w)))),
      (''routing_key'', JStr routing_key),
      (''metadata'', JObj (case metadata of None \<Rightarrow> [] | Some d \<Rightarrow> d))]"
  obtain pr ok where sh:
      "(fst (send_workflow_message e w routing_key message_type content metadata) = None
         \<and> trace (snd (send_workflow_message e w routing_key message_type content metadata)) =
             trace w @ [Upload (workflow_archive_path mid) m False])
      \<or> (trace (snd (send_workflow_message e w routing_key message_type content metadata)) =
             trace w @ [Upload (workflow_archive_path mid) m True,
                        Publish ''insurance.workflow'' routing_key m pr ok])"
    using send_workflow_message_trace [where e = e and w = w and rk = routing_key
        and mt = message_type and content = content and metadata = metadata]
    unfolding mid_def m_def by blast
  have "let (r, w') = send_workflow_message e w routing_key message_type content metadata;
         evs = events_since w w'
    in ((\<exists>mid m. Upload (workflow_archive_path mid) m False \<in> set evs) \<longrightarrow>
          r = None \<and> (\<forall>ev\<in>set evs. \<not> is_publish ev))
     \<and> (\<forall>x rk m pr ok. Publish x rk m pr ok \<in> set evs \<longrightarrow>
          Upload (workflow_archive_path mid) m True
                   \<in> set (takeWhile (\<lambda>ev. \<not> is_publish ev) evs))"
    using sh
    by (cases "send_workflow_message e w routing_key message_type content metadata") auto
  then show "let (r, w') = send_workflow_message e w routing_key message_type content metadata;
         evs = events_since w w'
    in ((\<exists>mid m. Upload (workflow_archive_path mid) m False \<in> set evs) \<longrightarrow>
          r = None \<and> (\<forall>ev\<in>set evs. \<not> is_publish ev))
     \<and> (\<forall>x rk m pr ok. Publish x rk m pr ok \<in> set evs \<longrightarrow>
          (\<exists>mid. Upload (workflow_archive_path mid) m True
                   \<in> set (takeWhile (\<lambda>ev. \<not> is_publish ev) evs)))"
    by (simp only: Let_def case_prod_beta) blast
qed

theorem archive_before_publish_witness:
  "fst (send_client_message (env1 (\<lambda>n. n < 4) (\<lambda>n. True)) (world0 ''2026-11-04'' 0) ''abc'' msg0)
     = Inr None
   \<and> filter is_publish (events_since (world0 ''2026-11-04'' 0)
         (snd (send_client_message (env1 (\<lambda>n. n < 4) (\<lambda>n. True)) (world0 ''2026-11-04'' 0)
                ''abc'' msg0))) = []
   \<and> fst (send_workflow_message (env1 (\<lambda>n. n < 2) (\<lambda>n. True)) (world0 ''2026-11-04'' 0)
            ''claims.submitted'' ''claim'' ''hi'' None) = None"
  using archive_before_publish [where e = "env1 (\<lambda>n. n < 4) (\<lambda>n. True)"
      and w = "world0 ''2026-11-04'' 0" and client_id = "''abc''" and md = msg0
      and routing_key = "''claims.submitted''" and message_type = "''claim''"
      and content = "''hi''" and metadata = None]
  by (simp add: run_defs)

text \<open>
  C5 as the claim states it fails: a failed call can change \<open>message_count_today\<close>.
  The metadata says 2026-11-03 and count 5, the date is 2026-11-04 and the archive upload
  fails: the call returns \<^verbatim>\<open>None\<close> and the stored count is 0, from the daily reset of
  \<^verbatim>\<open>check_message_limit\<close>.
\<close>

theorem counter_unchanged_counterexample:
  "fst (send_client_message (env1 (\<lambda>n. n < 5) (\<lambda>n. True)) (world0 ''2026-11-03'' 5) ''abc'' msg0)
     = Inr None
   \<and> stored_count (world0 ''2026-11-03'' 5) ''abc'' = Some 5
   \<and> stored_count
        (snd (send_client_message (env1 (\<lambda>n. n < 5) (\<lambda>n. True)) (world0 ''2026-11-03'' 5)
               ''abc'' msg0)) ''abc'' = Some 0"
  by (simp add: run_defs stored_count_def)

text \<open>
  C5, amended. Let \<open>w1\<close> be the world \<^verbatim>\<open>check_message_limit\<close> leaves. It differs from
  the initial one in the stored metadata only by the daily reset, and not at all when
  \<open>last_reset\<close> is today. Whenever \<^verbatim>\<open>send_client_message\<close> does not return a receipt
  (limit exceeded, archival failure, publish failure) the metadata file is as in \<open>w1\<close>.
  If the stored count differs from that of \<open>w1\<close>, it is that count plus 1, a receipt was
  returned and the publish had succeeded. After a failed publish the published envelope
  is in the store at its archive path.
\<close>

theorem counter_only_after_publish:
  "let w1 = snd (check_message_limit e w client_id);
       (r, w') = send_client_message e w client_id md;
       evs = events_since w w'
   in ((\<forall>rc. r \<noteq> Inr (Some rc)) \<longrightarrow>
          files w' (metadata_path client_id) = files w1 (metadata_path client_id))
    \<and> (stored_count w' client_id \<noteq> stored_count w1 client_id \<longrightarrow>
          (\<exists>n. stored_count w1 client_id = Some n \<and> stored_count w' client_id = Some (n + 1))
        \<and> (\<exists>rc. r = Inr (Some rc))
        \<and> (\<exists>m pr. Publish ''insurance.direct'' client_id m pr True \<in> set evs))
    \<and> (\<forall>x rk m pr. Publish x rk m pr False \<in> set evs \<longrightarrow>
          (\<exists>mid. files w' (archive_path client_id mid) = Some m))
    \<and> (\<forall>d. fst (get_client_metadata e w client_id) = Some (JObj d)
            \<and> map_of d ''last_reset'' = Some (JStr (today e (Suc (tick w)))) \<longrightarrow>
          files w1 = files w)
    \<and> (files w1 (metadata_path client_id) = files w (metadata_path client_id)
        \<or> (\<exists>d. files w1 (metadata_path client_id) = Some (JObj d)
              \<and> map_of d ''message_count_today'' = Some (JInt 0)
              \<and> map_of d ''last_reset'' = Some (JStr (today e (Suc (tick w))))))"
proof -
  define w1 where "w1 = snd (check_message_limit e w client_id)"
  define a where "a = archive_path client_id (uuid4 e (tick w1))"
  define m where "m = client_envelope (uuid4 e (tick w1)) (utcnow e (Suc (tick w1))) client_id md"
  define r where "r = fst (send_client_message e w client_id md)"
  define w' where "w' = snd (send_client_message e w client_id md)"
  define evs where "evs = events_since w w'"
  obtain pre where pre: "trace w1 = trace w @ pre"
      "\<forall>ev\<in>set pre. on_path (metadata_path client_id) ev"
    unfolding w1_def using check_events by blast
  from pre(2) have np: "\<And>x rk m pr ok. Publish x rk m pr ok \<notin> set pre"
    by force
  obtain post pr w5 where post: "\<forall>ev\<in>set post. on_path (metadata_path client_id) ev"
    and sh: "((\<exists>x. r = Inl x) \<and> w' = w1 \<and> evs = pre)
      \<or> (r = Inr None \<and> evs = pre @ [Upload a m False] \<and> files w' = files w1)
      \<or> (r = Inr None \<and> evs = pre @ [Upload a m True, Publish ''insurance.direct'' client_id m pr False]
           \<and> files w' = (files w1)(a \<mapsto> m))
      \<or> ((\<exists>rc. r = Inr (Some rc))
           \<and> evs = pre @ [Upload a m True, Publish ''insurance.direct'' client_id m pr True] @ post
           \<and> files w5 = (files w1)(a \<mapsto> m) \<and> w' = snd (increment_message_counter e w5 client_id))"
    using send_client_message_trace [of client_id e w md] pre(1)
    unfolding w1_def [symmetric] a_def [symmetric] m_def [symmetric] r_def w'_def evs_def
    by (cases "send_client_message e w client_id md") auto
  from post have npost: "\<And>x rk m pr ok. Publish x rk m pr ok \<notin> set post"
    by force
  have am: "a \<noteq> metadata_path client_id" by (simp add: a_def)
  have c1: "(\<forall>rc. r \<noteq> Inr (Some rc)) \<longrightarrow>
          files w' (metadata_path client_id) = files w1 (metadata_path client_id)"
    using sh am by auto
  have c3: "\<forall>x rk m pr. Publish x rk m pr False \<in> set evs \<longrightarrow>
          (\<exists>mid. files w' (archive_path client_id mid) = Some m)"
    using sh np npost by (auto simp add: a_def)
  have c2: "stored_count w' client_id \<noteq> stored_count w1 client_id \<longrightarrow>
          (\<exists>n. stored_count w1 client_id = Some n \<and> stored_count w' client_id = Some (n + 1))
        \<and> (\<exists>rc. r = Inr (Some rc))
        \<and> (\<exists>m pr. Publish ''insurance.direct'' client_id m pr True \<in> set evs)"
  proof
    assume ne: "stored_count w' client_id \<noteq> stored_count w1 client_id"
    have same: "files w' (metadata_path client_id) = files w1 (metadata_path client_id) \<Longrightarrow> False"
      using ne by (simp add: stored_count_def)
    from sh same am have w5: "\<exists>rc. r = Inr (Some rc)"
      "evs = pre @ [Upload a m True, Publish ''insurance.direct'' client_id m pr True] @ post"
      "files w5 = (files w1)(a \<mapsto> m)" "w' = snd (increment_message_counter e w5 client_id)"
      by auto
    have "stored_count w5 client_id = stored_count w1 client_id"
      using w5(3) am by (simp add: stored_count_def)
    with increment_count [of e w5 client_id] ne w5(4)
    have "\<exists>n. stored_count w1 client_id = Some n \<and> stored_count w' client_id = Some (n + 1)"
      by auto
    with w5(1,2) show "(\<exists>n. stored_count w1 client_id = Some n \<and> stored_count w' client_id = Some (n + 1))
        \<and> (\<exists>rc. r = Inr (Some rc))
        \<and> (\<exists>m pr. Publish ''insurance.direct'' client_id m pr True \<in> set evs)"
      by auto
  qed
  have c4: "\<forall>d. fst (get_client_metadata e w client_id) = Some (JObj d)
            \<and> map_of d ''last_reset'' = Some (JStr (today e (Suc (tick w)))) \<longrightarrow>
          files w1 = files w"
    unfolding w1_def using check_same_day by blast
  have c5: "files w1 (metadata_path client_id) = files w (metadata_path client_id)
        \<or> (\<exists>d. files w1 (metadata_path client_id) = Some (JObj d)
              \<and> map_of d ''message_count_today'' = Some (JInt 0)
              \<and> map_of d ''last_reset'' = Some (JStr (today e (Suc (tick w)))))"
    unfolding w1_def by (rule check_metadata)
  from c1 c2 c3 c4 c5 show ?thesis
    unfolding Let_def case_prod_beta w1_def [symmetric] r_def [symmetric] w'_def [symmetric] evs_def [symmetric]
    by (intro conjI)
qed

theorem counter_only_after_publish_witness:
  "fst (send_client_message (env1 (\<lambda>n. True) (\<lambda>n. False)) (world0 ''2026-11-04'' 1) ''abc'' msg0)
     = Inr None
   \<and> stored_count
        (snd (send_client_message (env1 (\<lambda>n. True) (\<lambda>n. False)) (world0 ''2026-11-04'' 1)
               ''abc'' msg0)) ''abc'' = Some 1
   \<and> files (snd (send_client_message (env1 (\<lambda>n. True) (\<lambda>n. False)) (world0 ''2026-11-04'' 1)
               ''abc'' msg0)) ''/clients/abc/messages/u-ii.json'' \<noteq> None"
  using counter_only_after_publish [where e = "env1 (\<lambda>n. True) (\<lambda>n. False)"
      and w = "world0 ''2026-11-04'' 1" and client_id = "''abc''" and md = msg0]
  by (simp add: run_defs stored_count_def)

text \<open>
  C6 (resend). When the download of the archived envelope returns a non-empty dictionary
  whose \<open>retry_count\<close> is absent (read as 0) or the integer \<open>n\<close>,
  \<^verbatim>\<open>resend_failed_message\<close> makes exactly three collaborator calls: that download, the
  upload to the same path of the envelope with a new \<open>timestamp\<close> and
  \<open>retry_count = n + 1\<close> (all other fields kept), and the publish of this envelope to
  \<open>insurance.direct\<close> with the client id as routing key, whose result it returns. The
  metadata file is neither read (no quota check) nor written (\<open>message_count_today\<close>
  unchanged).
\<close>

theorem resend_increments_retry_count:
  assumes "download_json e w (archive_path client_id mid) = (Some (JObj d), w1)"
      and "d \<noteq> []"
      and "map_of d ''retry_count'' = None \<and> n = 0 \<or> map_of d ''retry_count'' = Some (JInt n)"
  shows "let ts = utcnow e (tick w1);
             d' = AList.update ''retry_count'' (JInt (n + 1))
                    (AList.update ''timestamp'' (JStr ts) d);
             (r, w') = resend_failed_message e w mid client_id
         in map_of d' ''retry_count'' = Some (JInt (n + 1))
          \<and> map_of d' ''timestamp'' = Some (JStr ts)
          \<and> (\<forall>k. k \<noteq> ''retry_count'' \<and> k \<noteq> ''timestamp'' \<longrightarrow> map_of d' k = map_of d k)
          \<and> (\<exists>pr. events_since w w' =
                 [Download (archive_path client_id mid) True,
                  Upload (archive_path client_id mid) (JObj d') (dbx_ok e (Suc (tick w1))),
                  Publish ''insurance.direct'' client_id (JObj d') pr r])
          \<and> files w' = (if dbx_ok e (Suc (tick w1))
                         then (files w)(archive_path client_id mid \<mapsto> JObj d') else files w)
          \<and> files w' (metadata_path client_id) = files w (metadata_path client_id)"
proof -
  let ?a = "archive_path client_id mid"
  define ts where "ts = utcnow e (tick w1)"
  define d' where "d' = AList.update ''retry_count'' (JInt (n + 1))
                    (AList.update ''timestamp'' (JStr ts) d)"
  from download_json_SomeD [OF assms(1)]
  have w1: "w1 = step (Download ?a True) w" by simp
  have rc: "as_int (dict_get (AList.update ''timestamp'' (JStr ts) d) ''retry_count'' (JInt 0)) = Some n"
    using assms(3) by (auto simp add: dict_get_def map_of_update)
  define w3 where "w3 = snd (upload_json e (read_clock w1) ?a (JObj d'))"
  have unf: "resend_failed_message e w mid client_id = publish_client_message e w3 client_id (JObj d')"
    using assms(1,2) rc
    by (simp add: resend_failed_message_def Let_def case_prod_beta w3_def d'_def ts_def)
  have w3t: "trace w3 = trace w @ [Download ?a True, Upload ?a (JObj d') (dbx_ok e (Suc (tick w1)))]"
    by (simp add: w3_def w1)
  have w3f: "files w3 = (if dbx_ok e (Suc (tick w1)) then (files w)(?a \<mapsto> JObj d') else files w)"
    by (simp add: w3_def w1)
  obtain pr where pr: "trace (snd (publish_client_message e w3 client_id (JObj d'))) =
      trace w3 @ [Publish ''insurance.direct'' client_id (JObj d') pr
                    (fst (publish_client_message e w3 client_id (JObj d')))]"
    using publish_client_trace by blast
  have ev: "\<exists>pr. events_since w (snd (resend_failed_message e w mid client_id)) =
                 [Download ?a True, Upload ?a (JObj d') (dbx_ok e (Suc (tick w1))),
                  Publish ''insurance.direct'' client_id (JObj d') pr
                    (fst (resend_failed_message e w mid client_id))]"
    using pr w3t by (simp add: unf)
  have fl: "files (snd (resend_failed_message e w mid client_id)) =
      (if dbx_ok e (Suc (tick w1)) then (files w)(?a \<mapsto> JObj d') else files w)"
    by (simp add: unf w3f)
  have maps: "map_of d' ''retry_count'' = Some (JInt (n + 1))"
    "map_of d' ''timestamp'' = Some (JStr ts)"
    "\<forall>k. k \<noteq> ''retry_count'' \<and> k \<noteq> ''timestamp'' \<longrightarrow> map_of d' k = map_of d k"
    by (simp_all add: d'_def map_of_update)
  from ev fl maps show ?thesis
    unfolding Let_def case_prod_beta ts_def [symmetric] d'_def [symmetric]
    by simp
qed

theorem resend_increments_retry_count_witness:
  "fst (resend_failed_message env0 world_archived ''m1'' ''abc'')
   \<and> (case files (snd (resend_failed_message env0 world_archived ''m1'' ''abc''))
              ''/clients/abc/messages/m1.json'' of
         Some (JObj d) \<Rightarrow> map_of d ''retry_count'' = Some (JInt 1)
       | _ \<Rightarrow> False)
   \<and> stored_count (snd (resend_failed_message env0 world_archived ''m1'' ''abc'')) ''abc''
       = Some 2"
  using resend_increments_retry_count [where e = env0 and w = world_archived
      and client_id = "''abc''" and mid = "''m1''" and d = envelope0
      and ?w1.0 = "step (Download (archive_path ''abc'' ''m1'') True) world_archived" and n = 0]
  by (simp add: run_defs stored_count_def)

text \<open>
  C10 (notifications bypass the quota). \<^verbatim>\<open>send_notification\<close> makes exactly two
  collaborator calls: the upload of the notification to the archive path and, whether or
  not that upload succeeded, the publish to \<open>insurance.direct\<close>; it returns a receipt
  exactly when the publish succeeded. The metadata file is not read and not written, so
  there is no quota check and no increment, and in the model as in the code the method has
  no path that raises. \<^verbatim>\<open>send_client_message\<close>, in contrast, starts by reading the
  client's metadata.
\<close>

theorem notification_bypasses_quota:
  "let mid = uuid4 e (tick w); ts = utcnow e (Suc (tick w));
       m = JObj [(''id'', JStr mid), (''type'', JStr ''system_alert''),
                 (''content'', JStr content), (''timestamp'', JStr ts),
                 (''client_id'', JStr client_id),
                 (''notification_type'', JStr notification_type),
                 (''priority'', JInt prio), (''metadata'', JObj [])];
       archived = dbx_ok e (Suc (Suc (tick w)));
       (r, w') = send_notification e w client_id notification_type content prio
   in (\<exists>pr ok. events_since w w' =
          [Upload (archive_path client_id mid) m archived,
           Publish ''insurance.direct'' client_id m pr ok]
        \<and> (r \<noteq> None) = ok)
    \<and> files w' = (if archived then (files w)(archive_path client_id mid \<mapsto> m) else files w)
    \<and> files w' (metadata_path client_id) = files w (metadata_path client_id)
    \<and> (\<exists>found rest. events_since w (snd (send_client_message e w client_id md)) =
          Download (metadata_path client_id) found # rest)"
proof -
  define mid where "mid = uuid4 e (tick w)"
  define m where "m = JObj [(''id'', JStr mid), (''type'', JStr ''system_alert''),
                 (''content'', JStr content), (''timestamp'', JStr (utcnow e (Suc (tick w)))),
                 (''client_id'', JStr client_id),
                 (''notification_type'', JStr notification_type),
                 (''priority'', JInt prio), (''metadata'', JObj [])]"
  define w3 where "w3 = snd (upload_json e (read_clock (read_clock w)) (archive_path client_id mid) m)"
  let ?p = "publish_client_message e w3 client_id m"
  have unf: "send_notification e w client_id notification_type content prio =
      (if \<not> fst ?p then (None, snd ?p)
       else (Some (sent_receipt mid ''client_id'' client_id (utcnow e (Suc (tick w)))), snd ?p))"
    by (simp add: send_notification_def Let_def case_prod_beta w3_def m_def mid_def)
  have w3t: "trace w3 = trace w @ [Upload (archive_path client_id mid) m (dbx_ok e (Suc (Suc (tick w))))]"
    by (simp add: w3_def)
  have w3f: "files w3 = (if dbx_ok e (Suc (Suc (tick w)))
       then (files w)(archive_path client_id mid \<mapsto> m) else files w)"
    by (simp add: w3_def)
  obtain pr where pr: "trace (snd ?p) = trace w3 @ [Publish ''insurance.direct'' client_id m pr (fst ?p)]"
    using publish_client_trace by blast
  have ev: "\<exists>pr ok. events_since w (snd (send_notification e w client_id notification_type content prio)) =
          [Upload (archive_path client_id mid) m (dbx_ok e (Suc (Suc (tick w)))),
           Publish ''insurance.direct'' client_id m pr ok]
        \<and> (fst (send_notification e w client_id notification_type content prio) \<noteq> None) = ok"
    using pr w3t by (simp add: unf)
  have fl: "files (snd (send_notification e w client_id notification_type content prio)) =
      (if dbx_ok e (Suc (Suc (tick w))) then (files w)(archive_path client_id mid \<mapsto> m) else files w)"
    by (simp add: unf w3f)
  have contrast: "\<exists>found rest. events_since w (snd (send_client_message e w client_id md)) =
          Download (metadata_path client_id) found # rest"
    using send_client_message_first_event [of e w client_id md] by auto
  from ev fl contrast show ?thesis
    unfolding Let_def case_prod_beta mid_def [symmetric] m_def [symmetric]
    by simp
qed

theorem notification_bypasses_quota_witness:
  "fst (send_notification (env1 (\<lambda>n. n < 2) (\<lambda>n. True)) (world0 ''2026-11-04'' 2)
          ''abc'' ''billing'' ''hello'' 5) \<noteq> None
   \<and> files (snd (send_notification (env1 (\<lambda>n. n < 2) (\<lambda>n. True)) (world0 ''2026-11-04'' 2)
          ''abc'' ''billing'' ''hello'' 5)) = files (world0 ''2026-11-04'' 2)
   \<and> fst (send_client_message (env1 (\<lambda>n. n < 2) (\<lambda>n. True)) (world0 ''2026-11-04'' 2)
          ''abc'' msg0) =
       Inl (MessageLimitExceededException ''Daily limit exceeded for client abc'')"
  using notification_bypasses_quota [where e = "env1 (\<lambda>n. n < 2) (\<lambda>n. True)"
      and w = "world0 ''2026-11-04'' 2" and content = "''hello''" and client_id = "''abc''"
      and notification_type = "''billing''" and prio = 5 and md = msg0]
  by (simp add: run_defs)

text \<open>
  C9 as the claim states it fails for the limit 0: \<^verbatim>\<open>message_limit or daily_message_limit\<close>
  takes the configured daily limit (2 in the example environment) in place of a limit that
  is 0, and the queue is declared with \<open>x-max-length = 2\<close>.
\<close>

theorem max_length_zero_counterexample:
  "events_since (world0 ''2026-11-04'' 0)
     (snd (create_client_queue env0 (world0 ''2026-11-04'' 0) ''abc'' (Some 0))) =
   [QueueDeclare ''client.abc'' True
      (Some [(''x-message-ttl'', JInt 86400000),
             (''x-max-length'', JInt 2),
             (''x-overflow'', JStr ''reject-publish''),
             (''x-dead-letter-exchange'', JStr ''insurance.dlx''),
             (''x-dead-letter-routing-key'', JStr ''failed.abc'')]) True,
    QueueBind ''insurance.direct'' ''client.abc'' ''abc'' True,
    QueueDeclare ''failed.abc'' True None True,
    QueueBind ''insurance.dlx'' ''failed.abc'' ''failed.abc'' True]"
  by (simp add: run_defs)

text \<open>
  C9, amended. The effective limit is the one passed when it is given and not 0, and the
  configured daily limit otherwise. With a channel, \<^verbatim>\<open>create_client_queue\<close> issues the
  four calls below in this order, stopping after the first that raises, and returns true
  exactly when all four were accepted; \<^verbatim>\<open>setup_infrastructure\<close> does the same with the
  three exchange declarations. Without a channel neither makes a call.
\<close>

theorem client_queue_topology:
  "let limit = (case message_limit of
                  None \<Rightarrow> daily_message_limit e
                | Some l \<Rightarrow> if l \<noteq> 0 then l else daily_message_limit e);
       q = ''client.'' @ client_id;
       f = ''failed.'' @ client_id;
       cs = [queue_declare q True
               (Some [(''x-message-ttl'', JInt 86400000),
                      (''x-max-length'', JInt limit),
                      (''x-overflow'', JStr ''reject-publish''),
                      (''x-dead-letter-exchange'', JStr ''insurance.dlx''),
                      (''x-dead-letter-routing-key'', JStr f)]),
             queue_bind ''insurance.direct'' q client_id,
             queue_declare f True None,
             queue_bind ''insurance.dlx'' f f];
       xs = [exchange_declare ''insurance.direct'' direct True,
             exchange_declare ''insurance.workflow'' topic True,
             exchange_declare ''insurance.dlx'' direct True];
       (ok, w') = create_client_queue e w client_id message_limit;
       (ok2, w2) = setup_infrastructure e w
   in (ok \<longrightarrow> events_since w w' = map (\<lambda>c. call_event c True) cs)
    \<and> (channel e \<longrightarrow>
         (\<exists>k. events_since w w' = map (\<lambda>c. call_event c True) (take k cs)
                  @ (if ok then [] else [call_event (cs ! k) False])
            \<and> (if ok then k = 4 else k < 4)))
    \<and> (\<not> channel e \<longrightarrow> \<not> ok \<and> w' = w)
    \<and> (ok2 \<longrightarrow> events_since w w2 = map (\<lambda>c. call_event c True) xs)
    \<and> (channel e \<longrightarrow>
         (\<exists>k. events_since w w2 = map (\<lambda>c. call_event c True) (take k xs)
                  @ (if ok2 then [] else [call_event (xs ! k) False])
            \<and> (if ok2 then k = 3 else k < 3)))
    \<and> (\<not> channel e \<longrightarrow> \<not> ok2 \<and> w2 = w)"
proof -
  define limit where "limit = (case message_limit of
                  None \<Rightarrow> daily_message_limit e
                | Some l \<Rightarrow> if l \<noteq> 0 then l else daily_message_limit e)"
  define cs where "cs = client_queue_calls client_id limit"
  have cq: "create_client_queue e w client_id message_limit =
      (if \<not> channel e then (False, w) else calls e w cs)"
    by (simp add: create_client_queue_def cs_def limit_def Let_def)
  have si: "setup_infrastructure e w =
      (if \<not> channel e then (False, w) else calls e w infrastructure)"
    by (simp add: setup_infrastructure_def)
  have lcs: "length cs = 4" by (simp add: cs_def client_queue_calls_def)
  have lxs: "length infrastructure = 3" by (simp add: infrastructure_def)
  from calls_trace [of e w cs] obtain k where
    k: "events_since w (snd (calls e w cs)) = map (\<lambda>c. call_event c True) (take k cs)
            @ (if fst (calls e w cs) then [] else [call_event (cs ! k) False])"
       "if fst (calls e w cs) then k = 4 else k < 4"
    by (auto simp add: lcs events_since_def split: if_splits)
  from calls_trace [of e w infrastructure] obtain j where
    j: "events_since w (snd (calls e w infrastructure)) =
            map (\<lambda>c. call_event c True) (take j infrastructure)
            @ (if fst (calls e w infrastructure) then [] else [call_event (infrastructure ! j) False])"
       "if fst (calls e w infrastructure) then j = 3 else j < 3"
    by (auto simp add: lxs events_since_def split: if_splits)
  have A: "let (ok, w') = create_client_queue e w client_id message_limit
     in (ok \<longrightarrow> events_since w w' = map (\<lambda>c. call_event c True) cs)
    \<and> (channel e \<longrightarrow>
         (\<exists>k. events_since w w' = map (\<lambda>c. call_event c True) (take k cs)
                  @ (if ok then [] else [call_event (cs ! k) False])
            \<and> (if ok then k = 4 else k < 4)))
    \<and> (\<not> channel e \<longrightarrow> \<not> ok \<and> w' = w)"
    using k lcs by (auto simp add: cq case_prod_beta split: if_splits)
  have B: "let (ok2, w2) = setup_infrastructure e w
     in (ok2 \<longrightarrow> events_since w w2 = map (\<lambda>c. call_event c True) infrastructure)
    \<and> (channel e \<longrightarrow>
         (\<exists>k. events_since w w2 = map (\<lambda>c. call_event c True) (take k infrastructure)
                  @ (if ok2 then [] else [call_event (infrastructure ! k) False])
            \<and> (if ok2 then k = 3 else k < 3)))
    \<and> (\<not> channel e \<longrightarrow> \<not> ok2 \<and> w2 = w)"
    using j lxs by (auto simp add: si case_prod_beta split: if_splits)
  from A B show ?thesis
    unfolding Let_def case_prod_beta cs_def limit_def client_queue_calls_def queue_arguments_def
      infrastructure_def
    by simp
qed

theorem client_queue_topology_witness:
  "fst (create_client_queue env0 (world0 ''2026-11-04'' 0) ''abc'' (Some 5))
   \<and> events_since (world0 ''2026-11-04'' 0)
        (snd (create_client_queue env0 (world0 ''2026-11-04'' 0) ''abc'' (Some 5))) =
      [QueueDeclare ''client.abc'' True
         (Some [(''x-message-ttl'', JInt 86400000),
                (''x-max-length'', JInt 5),
                (''x-overflow'', JStr ''reject-publish''),
                (''x-dead-letter-exchange'', JStr ''insurance.dlx''),
                (''x-dead-letter-routing-key'', JStr ''failed.abc'')]) True,
       QueueBind ''insurance.direct'' ''client.abc'' ''abc'' True,
       QueueDeclare ''failed.abc'' True None True,
       QueueBind ''insurance.dlx'' ''failed.abc'' ''failed.abc'' True]
   \<and> events_since (world0 ''2026-11-04'' 0) (snd (setup_infrastructure env0 (world0 ''2026-11-04'' 0))) =
      [ExchangeDeclare ''insurance.direct'' direct True True,
       ExchangeDeclare ''insurance.workflow'' topic True True,
       ExchangeDeclare ''insurance.dlx'' direct True True]"
  using client_queue_topology [where message_limit = "Some 5" and e = env0
      and client_id = "''abc''" and w = "world0 ''2026-11-04'' 0"]
  by (simp add: run_defs)

text \<open>
  C8 (bulk isolation). The three buckets of a bulk result hold as many entries as the batch
  has items, and each turn of the loop adds one entry to the buckets. And for an item whose
  client is refused by the quota check at its turn, wherever it stands in the batch: the
  result is, bucket by bucket and in order, the result of the items before it, then its
  own entry in \<open>limit_exceeded\<close>, then the result of the items after it processed from the
  world its quota check left; during its turn the only collaborator calls are on its own
  metadata file and no other file changes, so nothing is archived or published for it.
\<close>

theorem bulk_isolation:
  "entries (fst (send_bulk_messages e w messages)) = length messages
   \<and> entries (fst (bulk_item e w results message_data)) = Suc (entries results)
   \<and> (let (r1, w1) = send_bulk_messages e w before;
           (allowed, w2) = check_message_limit e w1 (py_str e c);
           (r3, w3) = send_bulk_messages e w2 after
       in map_of item ''client_id'' = Some c \<and> \<not> allowed \<longrightarrow>
            send_bulk_messages e w (before @ item # after) =
              (\<lparr>successful = successful r1 @ successful r3,
                failed = failed r1 @ failed r3,
                limit_exceeded = limit_exceeded r1 @ (c, Daily_limit_exceeded) # limit_exceeded r3\<rparr>,
               w3)
          \<and> (\<forall>ev \<in> set (events_since w1 w2). on_path (metadata_path (py_str e c)) ev)
          \<and> (\<forall>p. p \<noteq> metadata_path (py_str e c) \<longrightarrow> files w2 p = files w1 p))"
proof -
  have count: "entries (fst (send_bulk_messages e w messages)) = length messages"
    using bulk_loop_entries [of e w messages]
    by (simp add: send_bulk_messages_def no_results_def)
  have turn: "entries (fst (bulk_item e w results message_data)) = Suc (entries results)"
    using bulk_item_entries [of e w message_data]
    by (subst bulk_item_append) (simp add: entries_def)
  define r1 where "r1 = fst (bulk_loop e w no_results before)"
  define w1 where "w1 = snd (bulk_loop e w no_results before)"
  define w2 where "w2 = snd (check_message_limit e w1 (py_str e c))"
  define r3 where "r3 = fst (bulk_loop e w2 no_results after)"
  define w3 where "w3 = snd (bulk_loop e w2 no_results after)"
  have iso: "bulk_loop e w no_results (before @ item # after) =
              (\<lparr>successful = successful r1 @ successful r3,
                failed = failed r1 @ failed r3,
                limit_exceeded = limit_exceeded r1 @ (c, Daily_limit_exceeded) # limit_exceeded r3\<rparr>,
               w3)"
    if "map_of item ''client_id'' = Some c" "\<not> fst (check_message_limit e w1 (py_str e c))"
  proof -
    have "bulk_loop e w no_results (before @ item # after) = bulk_loop e w1 r1 (item # after)"
      unfolding r1_def w1_def by (rule bulk_loop_split)
    also have "\<dots> = bulk_loop e w2
        (r1\<lparr>limit_exceeded := limit_exceeded r1 @ [(c, Daily_limit_exceeded)]\<rparr>) after"
      using that by (simp add: bulk_item_over_quota w2_def)
    also have "\<dots> = (append_results
        (r1\<lparr>limit_exceeded := limit_exceeded r1 @ [(c, Daily_limit_exceeded)]\<rparr>) r3, w3)"
      unfolding r3_def w3_def by (rule bulk_loop_append)
    finally show ?thesis
      by (simp add: append_results_def)
  qed
  obtain evs where evs: "trace w2 = trace w1 @ evs"
      "\<forall>ev\<in>set evs. on_path (metadata_path (py_str e c)) ev"
    unfolding w2_def using check_events by blast
  have frame: "\<forall>p. p \<noteq> metadata_path (py_str e c) \<longrightarrow> files w2 p = files w1 p"
    unfolding w2_def using check_files by blast
  from count turn iso evs frame show ?thesis
    unfolding Let_def case_prod_beta send_bulk_messages_def no_results_def [symmetric]
      r1_def [symmetric] w1_def [symmetric] w2_def [symmetric] r3_def [symmetric] w3_def [symmetric]
    by simp
qed

theorem bulk_isolation_witness:
  "fst (send_bulk_messages env0 world3
          [bulk_item0 ''aaa'', bulk_item0 ''bbb'', bulk_item0 ''ccc'']) =
     \<lparr>successful =
        [JObj [(''message_id'', JStr ''u-iiiiii''), (''client_id'', JStr ''bbb''),
               (''status'', JStr ''sent''), (''timestamp'', JStr ''2026-11-04T10:00:00'')],
         JObj [(''message_id'', JStr ''u-iiiiiiiiiiiiiiiiii''), (''client_id'', JStr ''ccc''),
               (''status'', JStr ''sent''), (''timestamp'', JStr ''2026-11-04T10:00:00'')]],
      failed = [],
      limit_exceeded = [(JStr ''aaa'', Daily_limit_exceeded)]\<rparr>"
proof -
  define w2 where "w2 = snd (check_message_limit env0 world3 ''aaa'')"
  have refused: "map_of (bulk_item0 ''aaa'') ''client_id'' = Some (JStr ''aaa'')
      \<and> \<not> fst (check_message_limit env0 world3 ''aaa'')"
    by (simp add: run_defs)
  have rest: "fst (send_bulk_messages env0 w2 [bulk_item0 ''bbb'', bulk_item0 ''ccc'']) =
     \<lparr>successful =
        [JObj [(''message_id'', JStr ''u-iiiiii''), (''client_id'', JStr ''bbb''),
               (''status'', JStr ''sent''), (''timestamp'', JStr ''2026-11-04T10:00:00'')],
         JObj [(''message_id'', JStr ''u-iiiiiiiiiiiiiiiiii''), (''client_id'', JStr ''ccc''),
               (''status'', JStr ''sent''), (''timestamp'', JStr ''2026-11-04T10:00:00'')]],
      failed = [], limit_exceeded = []\<rparr>"
    unfolding w2_def by (simp add: run_defs)
  have none: "send_bulk_messages env0 world3 [] = (no_results, world3)"
    by (simp add: send_bulk_messages_def no_results_def)
  from bulk_isolation [where e = env0 and w = world3 and before = "[]"
      and item = "bulk_item0 ''aaa''" and c = "JStr ''aaa''"
      and after = "[bulk_item0 ''bbb'', bulk_item0 ''ccc'']" and messages = "[]"]
    refused rest
  show ?thesis
    by (simp add: none py_str_def case_prod_beta w2_def [symmetric] no_results_def)
qed




text \<open>
  C3 is not what the code does. On a workflow queue a body that is not JSON, or not
  UTF-8, is nacked with \<open>requeue = True\<close>: \<^verbatim>\<open>process_workflow_message\<close> has no clause for
  \<^verbatim>\<open>JSONDecodeError\<close>. On a per-client queue a body that is not UTF-8 is nacked with
  \<open>requeue = True\<close> as well: \<^verbatim>\<open>UnicodeDecodeError\<close> is not a \<^verbatim>\<open>JSONDecodeError\<close>. Only a
  UTF-8 body that is not JSON, on a per-client queue, is discarded.
\<close>

theorem undecodable_body_requeued:
  "events_since w (snd (process_workflow_message e w delivery_tag routing_key Not_json)) =
     [Nack delivery_tag True (channel_ok e (tick w))]
   \<and> events_since w (snd (process_workflow_message e w delivery_tag routing_key Not_utf8)) =
     [Nack delivery_tag True (channel_ok e (tick w))]
   \<and> events_since w (snd (process_message e w delivery_tag Not_utf8)) =
     [Nack delivery_tag True (channel_ok e (tick w))]
   \<and> events_since w (snd (process_message e w delivery_tag Not_json)) =
     [Nack delivery_tag False (channel_ok e (tick w))]"
  by (simp add: process_workflow_message_def process_message_def events_since_def)

end
